theory Spec2Isabelle
  imports Main "HOL-Library.AList"
begin

section \<open>Values, errors and documents\<close>

text \<open>
  The saved-objects repository (\<^verbatim>\<open>SavedObjectsRepository\<close>, the class of
  \<^verbatim>\<open>repository.ts\<close>) is embedded as state-passing functions over a world that holds
  the document store, the log of the requests sent to it, the clock and the id generator.
  Every \<^verbatim>\<open>throw\<close> of the source is an \<open>Inl\<close> result.

  Untyped JavaScript values (attribute bags, the \<^verbatim>\<open>counterFields\<close> argument before it
  is validated) are values of \<open>js\<close>. Numbers are integers: the repository does no
  arithmetic on them, it only selects and forwards them.
\<close>

datatype js =
    JUndefined
  | JNull
  | JBool bool
  | JNum int
  | JStr string
  | JArr "js list"
  | JObj "(string \<times> js) list"

text \<open>Property read \<^verbatim>\<open>o.k\<close> on a value that is neither null nor undefined.\<close>

definition js_prop :: "js \<Rightarrow> string \<Rightarrow> js" where
  "js_prop v k =
     (case v of
        JObj kvs \<Rightarrow> (case map_of kvs k of None \<Rightarrow> JUndefined | Some x \<Rightarrow> x)
      | _ \<Rightarrow> JUndefined)"

text \<open>\<^verbatim>\<open>typeof v === 'string'\<close> and lodash's \<^verbatim>\<open>isObject\<close> (objects and arrays).\<close>

definition isString :: "js \<Rightarrow> bool" where
  "isString v = (case v of JStr _ \<Rightarrow> True | _ \<Rightarrow> False)"

definition isObject :: "js \<Rightarrow> bool" where
  "isObject v = (case v of JObj _ \<Rightarrow> True | JArr _ \<Rightarrow> True | _ \<Rightarrow> False)"

text \<open>JavaScript truthiness of an optional string: undefined and the empty string are falsy.\<close>

definition truthy :: "string option \<Rightarrow> bool" where
  "truthy s = (case s of None \<Rightarrow> False | Some v \<Rightarrow> v \<noteq> [])"

text \<open>
  The error kinds of \<^verbatim>\<open>SavedObjectsErrorHelpers\<close>, each with its message or the
  \<^verbatim>\<open>type/id\<close> it names; \<open>GeneralError\<close> is a plain \<^verbatim>\<open>new Error(...)\<close> or
  \<^verbatim>\<open>TypeError\<close>, \<open>StoreError\<close> a failure reported by the document store that is
  none of the recognised kinds.
\<close>

datatype error =
    BadRequest string
  | NotFound string
  | Conflict string
  | UnsupportedType string
  | GeneralError string
  | StoreError string

text \<open>
  Modelled from the spec: the constructors of \<^verbatim>\<open>SavedObjectsErrorHelpers\<close>
  (\<^verbatim>\<open>errors.ts\<close> is not part of the sources at hand). The spec names the kinds
  (\<^verbatim>\<open>UnsupportedType\<close>, \<^verbatim>\<open>NotFound\<close>, \<^verbatim>\<open>Conflict\<close>, \<^verbatim>\<open>BadRequest\<close>);
  the payload keeps the arguments of the call.
\<close>

definition createGenericNotFoundError :: "string \<Rightarrow> string \<Rightarrow> error" where
  "createGenericNotFoundError t i = NotFound (t @ ''/'' @ i)"

definition createConflictError :: "string \<Rightarrow> string \<Rightarrow> error" where
  "createConflictError t i = Conflict (t @ ''/'' @ i)"

definition createUnsupportedTypeError :: "string \<Rightarrow> error" where
  "createUnsupportedTypeError t = UnsupportedType t"

definition createBadRequestError :: "string \<Rightarrow> error" where
  "createBadRequestError msg = BadRequest msg"

definition isNotFoundError :: "error \<Rightarrow> bool" where
  "isNotFoundError e = (case e of NotFound _ \<Rightarrow> True | _ \<Rightarrow> False)"

definition isConflictError :: "error \<Rightarrow> bool" where
  "isConflictError e = (case e of Conflict _ \<Rightarrow> True | _ \<Rightarrow> False)"

definition isBadRequestError :: "error \<Rightarrow> bool" where
  "isBadRequestError e = (case e of BadRequest _ \<Rightarrow> True | _ \<Rightarrow> False)"

type_synonym reference = "string \<times> string \<times> string"

text \<open>
  A saved object as the repository hands it to the migrator and returns it to callers
  (\<^verbatim>\<open>SavedObjectSanitizedDoc\<close>, \<^verbatim>\<open>SavedObject\<close>): optional members are options.
\<close>

record so_doc =
  so_id :: string
  so_type :: string
  so_namespace :: "string option"
  so_namespaces :: "string list option"
  so_originId :: "string option"
  so_attributes :: js
  so_migrationVersion :: js
  so_updated_at :: "string option"
  so_references :: "reference list option"
  so_version :: "string option"

text \<open>
  The raw document of the store (\<^verbatim>\<open>SavedObjectsRawDoc\<close>): \<^verbatim>\<open>_id\<close>, \<^verbatim>\<open>_source\<close>
  and, on a hit, \<^verbatim>\<open>_seq_no\<close> and \<^verbatim>\<open>_primary_term\<close>. In \<^verbatim>\<open>_source\<close> the
  attribute bag of a type sits under the key that is the type's name (\<open>rs_bags\<close>).
\<close>

record raw_source =
  rs_type :: string
  rs_namespace :: "string option"
  rs_namespaces :: "string list option"
  rs_originId :: "string option"
  rs_bags :: "(string \<times> js) list"
  rs_references :: "reference list option"
  rs_updated_at :: "string option"
  rs_migrationVersion :: js

record raw_doc =
  doc_id :: string
  doc_source :: raw_source
  doc_seq_no :: "nat option"
  doc_primary_term :: "nat option"

text \<open>\<^verbatim>\<open>_source[key]\<close>.\<close>

definition source_bag :: "raw_source \<Rightarrow> string \<Rightarrow> js" where
  "source_bag src k = (case map_of (rs_bags src) k of None \<Rightarrow> JUndefined | Some b \<Rightarrow> b)"

section \<open>Namespaces\<close>

text \<open>
  Modelled from the spec: \<^verbatim>\<open>ALL_NAMESPACES_STRING\<close>, \<^verbatim>\<open>namespaceStringToId\<close> and
  \<^verbatim>\<open>namespaceIdToString\<close> of \<^verbatim>\<open>SavedObjectsUtils\<close> (\<^verbatim>\<open>utils.ts\<close> is not part of
  the sources at hand). The wildcard is the \<^verbatim>\<open>"*"\<close> of the repository's own error
  messages; by the glossary the default namespace is the string \<^verbatim>\<open>default\<close> outside and
  undefined inside.
\<close>

definition ALL_NAMESPACES_STRING :: string where
  "ALL_NAMESPACES_STRING = ''*''"

definition DEFAULT_NAMESPACE_STRING :: string where
  "DEFAULT_NAMESPACE_STRING = ''default''"

definition namespaceStringToId :: "string \<Rightarrow> string option" where
  "namespaceStringToId ns = (if ns = DEFAULT_NAMESPACE_STRING then None else Some ns)"

definition namespaceIdToString :: "string option \<Rightarrow> string" where
  "namespaceIdToString ns = (case ns of None \<Rightarrow> DEFAULT_NAMESPACE_STRING | Some n \<Rightarrow> n)"

text \<open>\<^verbatim>\<open>normalizeNamespace\<close>, as written at the end of the repository's file.\<close>

definition normalizeNamespace :: "string option \<Rightarrow> error + string option" where
  "normalizeNamespace ns =
     (if ns = Some ALL_NAMESPACES_STRING
        then Inl (createBadRequestError ''\"options.namespace\" cannot be \"*\"'')
      else if ns = None then Inr ns
      else Inr (namespaceStringToId (the ns)))"

text \<open>\<^verbatim>\<open>getSavedObjectNamespaces(namespace, document)\<close>.\<close>

definition getSavedObjectNamespaces :: "string option \<Rightarrow> raw_doc option \<Rightarrow> string list option" where
  "getSavedObjectNamespaces ns document =
     (case document of
        Some d \<Rightarrow> rs_namespaces (doc_source d)
      | None \<Rightarrow> Some [namespaceIdToString ns])"

definition isFoundGetResponse :: "raw_doc option \<Rightarrow> bool" where
  "isFoundGetResponse body = (body \<noteq> None)"

text \<open>\<^verbatim>\<open>[...new Set(array)]\<close>: the first occurrence of each element, in order.\<close>

fun unique :: "string list \<Rightarrow> string list" where
  "unique [] = []"
| "unique (x # xs) = x # unique (filter (\<lambda>y. y \<noteq> x) xs)"

section \<open>The repository's collaborators\<close>

text \<open>
  The fields of the repository (\<^verbatim>\<open>_index\<close>, \<^verbatim>\<open>_allowedTypes\<close>, the type registry,
  the serializer, the migrator) and the imported helpers whose files are not part of the
  sources at hand (the version codec, \<^verbatim>\<open>rawDocExistsInNamespace\<close>,
  \<^verbatim>\<open>getSavedObjectFromSource\<close>, \<^verbatim>\<open>generateId\<close>) are parameters: a theorem about the
  repository holds for every such collaborator. A collaborator that can throw returns a
  sum: the migrator validates the document it is given, the version codec rejects a token
  it cannot read.
\<close>

record repository =
  r_index :: string
  r_allowedTypes :: "string list"
  isSingleNamespace :: "string \<Rightarrow> bool"
  isMultiNamespace :: "string \<Rightarrow> bool"
  isNamespaceAgnostic :: "string \<Rightarrow> bool"
  isShareable :: "string \<Rightarrow> bool"
  getIndex :: "string \<Rightarrow> string option"
  generateRawId :: "string option \<Rightarrow> string \<Rightarrow> string \<Rightarrow> string"
  generateRawLegacyUrlAliasId :: "string \<Rightarrow> string \<Rightarrow> string \<Rightarrow> string"
  savedObjectToRaw :: "so_doc \<Rightarrow> raw_doc"
  rawToSavedObject :: "raw_doc \<Rightarrow> so_doc"
  migrateDocument :: "so_doc \<Rightarrow> error + so_doc"
  enableV2 :: bool
  kibanaVersion :: string
  decodeRequestVersion :: "string \<Rightarrow> error + nat \<times> nat"
  encodeVersion :: "nat option \<Rightarrow> nat option \<Rightarrow> string"
  rawDocExistsInNamespace :: "raw_doc \<Rightarrow> string option \<Rightarrow> bool"
  getSavedObjectFromSource :: "string \<Rightarrow> string \<Rightarrow> raw_doc \<Rightarrow> so_doc"
  generateId :: "nat \<Rightarrow> string"

definition allowed :: "repository \<Rightarrow> string \<Rightarrow> bool" where
  "allowed r t = (t \<in> set (r_allowedTypes r))"

text \<open>\<^verbatim>\<open>getIndexForType\<close> and \<^verbatim>\<open>getIndicesForTypes\<close>.\<close>

definition getIndexForType :: "repository \<Rightarrow> string \<Rightarrow> string" where
  "getIndexForType r t =
     (let base = (if truthy (getIndex r t) then the (getIndex r t) else r_index r)
      in if enableV2 r then base @ ''_'' @ kibanaVersion r else base)"

definition getIndicesForTypes :: "repository \<Rightarrow> string list \<Rightarrow> string list" where
  "getIndicesForTypes r ts = unique (map (getIndexForType r) ts)"

text \<open>
  Modelled from the spec: \<^verbatim>\<open>getExpectedVersionProperties(version, document)\<close> of
  \<^verbatim>\<open>internal_utils.ts\<close>, which is not part of the sources at hand. By the spec a
  \<^verbatim>\<open>version\<close> given by the caller is translated into the store's if-match precondition
  (\<^verbatim>\<open>if_seq_no\<close>, \<^verbatim>\<open>if_primary_term\<close>); without one, the version read by the
  preflight, when there is one, is the precondition.
\<close>

definition getExpectedVersionProperties ::
  "repository \<Rightarrow> string option \<Rightarrow> raw_doc option \<Rightarrow> error + (nat \<times> nat) option" where
  "getExpectedVersionProperties r version document =
     (if truthy version then
        (case decodeRequestVersion r (the version) of
           Inl e \<Rightarrow> Inl e
         | Inr st \<Rightarrow> Inr (Some st))
      else
        (case document of
           None \<Rightarrow> Inr None
         | Some d \<Rightarrow>
             (case (doc_seq_no d, doc_primary_term d) of
                (Some s, Some t) \<Rightarrow> Inr (Some (s, t))
              | _ \<Rightarrow> Inr None)))"

section \<open>The document store\<close>

text \<open>
  Modelled from the spec: the document store client (\<^verbatim>\<open>RepositoryEsClient\<close> and the
  search engine behind it are not part of the sources at hand). By the spec the store keeps,
  per document, a sequence number and a primary term, which are its only concurrency
  primitive; a write whose if-match precondition names another pair is rejected as a
  \<^verbatim>\<open>Conflict\<close> and changes nothing; get and multi-get answer per document, in request
  order. The two inline scripts are those written in the repository's source.
\<close>

record stored =
  st_seq_no :: nat
  st_primary_term :: nat
  st_source :: raw_source

datatype bulk_action = ActIndex | ActCreate | ActUpdate

text \<open>
  The search request of \<^verbatim>\<open>find\<close> (\<^verbatim>\<open>esOptions\<close>): the parameters beside the body,
  and the body, whose last members are the fragment \<^verbatim>\<open>getSearchDsl\<close> returns.
\<close>

record search_body =
  sb_size :: int
  sb_seq_no_primary_term :: bool
  sb_from :: int
  sb_source :: "string list option"
  sb_aggs :: "js option"
  sb_dsl :: js

record es_options =
  eo_index :: "string list option"
  eo_from :: "int option"
  eo_source :: "string list option"
  eo_preference :: "string option"
  eo_rest_total_hits_as_int :: bool
  eo_size :: int
  eo_body :: search_body

datatype es_call =
    CallGet string string
  | CallMget "(string \<times> string) list"
  | CallIndex string string "(nat \<times> nat) option"
  | CallCreate string string "(nat \<times> nat) option"
  | CallUpdate string string "(nat \<times> nat) option"
  | CallUpdateScript string string "js list" "js list"
  | CallBulk "(bulk_action \<times> string \<times> string \<times> (nat \<times> nat) option) list"
  | CallDelete string string "(nat \<times> nat) option"
  | CallSearch es_options

record world =
  w_docs :: "((string \<times> string) \<times> stored) list"
  w_seq :: nat
  w_term :: nat
  w_calls :: "es_call list"
  w_uuid :: nat
  w_time :: string

definition log_call :: "es_call \<Rightarrow> world \<Rightarrow> world" where
  "log_call c w = w\<lparr>w_calls := w_calls w @ [c]\<rparr>"

definition find_doc :: "world \<Rightarrow> string \<Rightarrow> string \<Rightarrow> stored option" where
  "find_doc w idx i = map_of (w_docs w) (idx, i)"

definition hit :: "string \<Rightarrow> stored \<Rightarrow> raw_doc" where
  "hit i d = \<lparr>doc_id = i, doc_source = st_source d,
              doc_seq_no = Some (st_seq_no d), doc_primary_term = Some (st_primary_term d)\<rparr>"

definition put_doc :: "string \<Rightarrow> string \<Rightarrow> raw_source \<Rightarrow> world \<Rightarrow> world" where
  "put_doc idx i src w =
     w\<lparr>w_docs := AList.update (idx, i)
                   \<lparr>st_seq_no = w_seq w, st_primary_term = w_term w, st_source = src\<rparr> (w_docs w),
       w_seq := Suc (w_seq w)\<rparr>"

definition remove_doc :: "string \<Rightarrow> string \<Rightarrow> world \<Rightarrow> world" where
  "remove_doc idx i w = w\<lparr>w_docs := AList.delete (idx, i) (w_docs w), w_seq := Suc (w_seq w)\<rparr>"

definition version_ok :: "(nat \<times> nat) option \<Rightarrow> stored option \<Rightarrow> bool" where
  "version_ok ifm cur =
     (case ifm of
        None \<Rightarrow> True
      | Some (s, t) \<Rightarrow>
          (case cur of None \<Rightarrow> False | Some d \<Rightarrow> st_seq_no d = s \<and> st_primary_term d = t))"

definition store_conflict :: error where
  "store_conflict = Conflict ''version_conflict_engine_exception''"

definition store_not_found :: error where
  "store_not_found = NotFound ''document_missing_exception''"

record write_resp =
  wr_seq_no :: "nat option"
  wr_primary_term :: "nat option"
  wr_get :: "raw_source option"

definition written :: "world \<Rightarrow> raw_source option \<Rightarrow> write_resp" where
  "written w g = \<lparr>wr_seq_no = Some (w_seq w), wr_primary_term = Some (w_term w), wr_get = g\<rparr>"

definition es_get :: "string \<Rightarrow> string \<Rightarrow> world \<Rightarrow> (nat \<times> raw_doc option) \<times> world" where
  "es_get idx i w =
     (case find_doc w idx i of
        None \<Rightarrow> ((404, None), log_call (CallGet idx i) w)
      | Some d \<Rightarrow> ((200, Some (hit i d)), log_call (CallGet idx i) w))"

definition es_mget ::
  "(string \<times> string) list \<Rightarrow> world \<Rightarrow> (nat \<times> raw_doc option list) \<times> world" where
  "es_mget reqs w =
     ((200, map (\<lambda>(idx, i). map_option (hit i) (find_doc w idx i)) reqs),
      log_call (CallMget reqs) w)"

definition es_index ::
  "string \<Rightarrow> string \<Rightarrow> (nat \<times> nat) option \<Rightarrow> raw_source \<Rightarrow> world \<Rightarrow> (error + write_resp) \<times> world" where
  "es_index idx i ifm src w =
     (let w1 = log_call (CallIndex idx i ifm) w
      in if version_ok ifm (find_doc w idx i)
           then (Inr (written w None), put_doc idx i src w1)
           else (Inl store_conflict, w1))"

definition es_create ::
  "string \<Rightarrow> string \<Rightarrow> (nat \<times> nat) option \<Rightarrow> raw_source \<Rightarrow> world \<Rightarrow> (error + write_resp) \<times> world" where
  "es_create idx i ifm src w =
     (let w1 = log_call (CallCreate idx i ifm) w
      in if find_doc w idx i = None \<and> ifm = None
           then (Inr (written w None), put_doc idx i src w1)
           else (Inl store_conflict, w1))"

text \<open>
  A partial-document update: the fields of the request's \<^verbatim>\<open>doc\<close> are merged into the
  stored source (attribute bags key by key); everything else in the source stays.
\<close>

record update_doc =
  ud_type :: string
  ud_attributes :: js
  ud_updated_at :: string
  ud_references :: "reference list option"

definition js_merge :: "js \<Rightarrow> js \<Rightarrow> js" where
  "js_merge old new =
     (case (old, new) of
        (JObj a, JObj b) \<Rightarrow> JObj (fold (\<lambda>(k, v). AList.update k v) b a)
      | _ \<Rightarrow> new)"

definition apply_update_doc :: "update_doc \<Rightarrow> raw_source \<Rightarrow> raw_source" where
  "apply_update_doc ud src =
     src\<lparr>rs_bags := AList.update (ud_type ud)
                      (js_merge (source_bag src (ud_type ud)) (ud_attributes ud)) (rs_bags src),
         rs_updated_at := Some (ud_updated_at ud),
         rs_references := (case ud_references ud of
                             None \<Rightarrow> rs_references src
                           | Some rf \<Rightarrow> Some rf)\<rparr>"

definition es_update ::
  "string \<Rightarrow> string \<Rightarrow> (nat \<times> nat) option \<Rightarrow> update_doc \<Rightarrow> raw_source option \<Rightarrow> world
     \<Rightarrow> (error + write_resp) \<times> world" where
  "es_update idx i ifm ud upsert w =
     (let w1 = log_call (CallUpdate idx i ifm) w
      in case find_doc w idx i of
           None \<Rightarrow>
             (case upsert of
                None \<Rightarrow> (Inl store_not_found, w1)
              | Some u \<Rightarrow>
                  (if ifm \<noteq> None then (Inl store_conflict, w1)
                   else (Inr (written w (Some u)), put_doc idx i u w1)))
         | Some d \<Rightarrow>
             (if version_ok ifm (Some d)
                then (let src = apply_update_doc ud (st_source d)
                      in (Inr (written w (Some src)), put_doc idx i src w1))
                else (Inl store_conflict, w1)))"

text \<open>
  The script of \<^verbatim>\<open>resolve\<close>: unless the alias is disabled, bump its
  \<^verbatim>\<open>resolveCounter\<close> and stamp \<^verbatim>\<open>lastResolved\<close> and \<^verbatim>\<open>updated_at\<close>.
  A script that dereferences a missing bag fails in the store.
\<close>

definition run_resolve_script :: "string \<Rightarrow> string \<Rightarrow> raw_source \<Rightarrow> error + raw_source" where
  "run_resolve_script ptype ptime src =
     (case source_bag src ptype of
        JObj kvs \<Rightarrow>
          (if js_prop (JObj kvs) ''disabled'' \<noteq> JBool True then
             (case js_prop (JObj kvs) ''resolveCounter'' of
                JUndefined \<Rightarrow>
                  Inr (src\<lparr>rs_bags := AList.update ptype
                         (JObj (AList.update ''lastResolved'' (JStr ptime)
                                 (AList.update ''resolveCounter'' (JNum 1) kvs))) (rs_bags src),
                           rs_updated_at := Some ptime\<rparr>)
              | JNull \<Rightarrow>
                  Inr (src\<lparr>rs_bags := AList.update ptype
                         (JObj (AList.update ''lastResolved'' (JStr ptime)
                                 (AList.update ''resolveCounter'' (JNum 1) kvs))) (rs_bags src),
                           rs_updated_at := Some ptime\<rparr>)
              | JNum n \<Rightarrow>
                  Inr (src\<lparr>rs_bags := AList.update ptype
                         (JObj (AList.update ''lastResolved'' (JStr ptime)
                                 (AList.update ''resolveCounter'' (JNum (n + 1)) kvs))) (rs_bags src),
                           rs_updated_at := Some ptime\<rparr>)
              | _ \<Rightarrow> Inl (StoreError ''script_exception''))
           else Inr src)
      | _ \<Rightarrow> Inl (StoreError ''script_exception''))"

text \<open>
  The script of \<^verbatim>\<open>incrementCounterInternal\<close>: for each counter field, in order, set it
  to its count when it is null or missing, add the count otherwise; then stamp
  \<^verbatim>\<open>updated_at\<close>.
\<close>

fun bump_counters :: "(js \<times> js) list \<Rightarrow> (string \<times> js) list \<Rightarrow> error + (string \<times> js) list" where
  "bump_counters [] kvs = Inr kvs"
| "bump_counters ((JStr name, count) # rest) kvs =
     (case map_of kvs name of
        None \<Rightarrow> bump_counters rest (AList.update name count kvs)
      | Some JUndefined \<Rightarrow> bump_counters rest (AList.update name count kvs)
      | Some JNull \<Rightarrow> bump_counters rest (AList.update name count kvs)
      | Some (JNum n) \<Rightarrow>
          (case count of
             JNum c \<Rightarrow> bump_counters rest (AList.update name (JNum (n + c)) kvs)
           | _ \<Rightarrow> Inl (StoreError ''script_exception''))
      | Some _ \<Rightarrow> Inl (StoreError ''script_exception''))"
| "bump_counters (_ # rest) kvs = Inl (StoreError ''script_exception'')"

definition run_increment_script ::
  "js list \<Rightarrow> js list \<Rightarrow> string \<Rightarrow> string \<Rightarrow> raw_source \<Rightarrow> error + raw_source" where
  "run_increment_script names counts ptime ptype src =
     (case source_bag src ptype of
        JObj kvs \<Rightarrow>
          (case bump_counters (zip names counts) kvs of
             Inl e \<Rightarrow> Inl e
           | Inr kvs' \<Rightarrow>
               Inr (src\<lparr>rs_bags := AList.update ptype (JObj kvs') (rs_bags src),
                        rs_updated_at := Some ptime\<rparr>))
      | _ \<Rightarrow> Inl (StoreError ''script_exception''))"

text \<open>
  A scripted update. A missing document is created from \<^verbatim>\<open>upsert\<close> when there is one;
  otherwise the store answers 404, which the caller may have asked to ignore.
\<close>

definition es_update_script ::
  "string \<Rightarrow> string \<Rightarrow> js list \<Rightarrow> js list \<Rightarrow> (raw_source \<Rightarrow> error + raw_source)
     \<Rightarrow> raw_source option \<Rightarrow> bool \<Rightarrow> world \<Rightarrow> (error + nat \<times> write_resp option) \<times> world" where
  "es_update_script idx i names counts script upsert ignore404 w =
     (let w1 = log_call (CallUpdateScript idx i names counts) w
      in case find_doc w idx i of
           None \<Rightarrow>
             (case upsert of
                Some u \<Rightarrow> (Inr (201, Some (written w (Some u))), put_doc idx i u w1)
              | None \<Rightarrow>
                  (if ignore404 then (Inr (404, None), w1) else (Inl store_not_found, w1)))
         | Some d \<Rightarrow>
             (case script (st_source d) of
                Inl e \<Rightarrow> (Inl e, w1)
              | Inr src \<Rightarrow> (Inr (200, Some (written w (Some src))), put_doc idx i src w1)))"

text \<open>Delete, with 404 ignored by the caller: the body's \<^verbatim>\<open>result\<close> tells what happened.\<close>

record delete_body =
  db_result :: string
  db_error_type :: "string option"

definition es_delete ::
  "string \<Rightarrow> string \<Rightarrow> (nat \<times> nat) option \<Rightarrow> world \<Rightarrow> (error + delete_body \<times> nat) \<times> world" where
  "es_delete idx i ifm w =
     (let w1 = log_call (CallDelete idx i ifm) w
      in case find_doc w idx i of
           None \<Rightarrow> (Inr (\<lparr>db_result = ''not_found'', db_error_type = None\<rparr>, 404), w1)
         | Some d \<Rightarrow>
             (if version_ok ifm (Some d)
                then (Inr (\<lparr>db_result = ''deleted'', db_error_type = None\<rparr>, 200),
                      remove_doc idx i w1)
                else (Inl store_conflict, w1)))"

text \<open>
  The bulk write: the operations are applied in order, and each gets its own item in the
  response, with a status and, when it failed, an error; a failed operation changes nothing
  and does not stop the ones after it.
\<close>

datatype bulk_op =
    OpIndex string string "(nat \<times> nat) option" raw_source
  | OpCreate string string "(nat \<times> nat) option" raw_source
  | OpUpdate string string "(nat \<times> nat) option" update_doc

record bulk_item =
  bi_status :: nat
  bi_error :: bool
  bi_seq_no :: "nat option"
  bi_primary_term :: "nat option"
  bi_get :: "raw_source option"

definition item_ok :: "nat \<Rightarrow> world \<Rightarrow> raw_source option \<Rightarrow> bulk_item" where
  "item_ok st w g = \<lparr>bi_status = st, bi_error = False, bi_seq_no = Some (w_seq w),
                     bi_primary_term = Some (w_term w), bi_get = g\<rparr>"

definition item_failed :: "nat \<Rightarrow> bulk_item" where
  "item_failed st = \<lparr>bi_status = st, bi_error = True, bi_seq_no = None,
                      bi_primary_term = None, bi_get = None\<rparr>"

fun bulk_step :: "bulk_op \<Rightarrow> world \<Rightarrow> bulk_item \<times> world" where
  "bulk_step (OpIndex idx i ifm src) w =
     (if version_ok ifm (find_doc w idx i)
        then (item_ok 200 w None, put_doc idx i src w)
        else (item_failed 409, w))"
| "bulk_step (OpCreate idx i ifm src) w =
     (if find_doc w idx i = None \<and> ifm = None
        then (item_ok 201 w None, put_doc idx i src w)
        else (item_failed 409, w))"
| "bulk_step (OpUpdate idx i ifm ud) w =
     (case find_doc w idx i of
        None \<Rightarrow> (item_failed 404, w)
      | Some d \<Rightarrow>
          (if version_ok ifm (Some d)
             then (let src = apply_update_doc ud (st_source d)
                   in (item_ok 200 w (Some src), put_doc idx i src w))
             else (item_failed 409, w)))"

fun bulk_run :: "bulk_op list \<Rightarrow> world \<Rightarrow> bulk_item list \<times> world" where
  "bulk_run [] w = ([], w)"
| "bulk_run (x # xs) w =
     (case bulk_step x w of
        (it, w1) \<Rightarrow> (case bulk_run xs w1 of (its, w2) \<Rightarrow> (it # its, w2)))"

fun bulk_op_key :: "bulk_op \<Rightarrow> bulk_action \<times> string \<times> string \<times> (nat \<times> nat) option" where
  "bulk_op_key (OpIndex idx i ifm src) = (ActIndex, idx, i, ifm)"
| "bulk_op_key (OpCreate idx i ifm src) = (ActCreate, idx, i, ifm)"
| "bulk_op_key (OpUpdate idx i ifm ud) = (ActUpdate, idx, i, ifm)"

definition es_bulk :: "bulk_op list \<Rightarrow> world \<Rightarrow> bulk_item list \<times> world" where
  "es_bulk ops w = bulk_run ops (log_call (CallBulk (map bulk_op_key ops)) w)"

text \<open>
  Modelled from the spec: \<^verbatim>\<open>getBulkOperationError(type, id, rawResponse)\<close> of
  \<^verbatim>\<open>internal_utils.ts\<close>, which is not part of the sources at hand. A failed item
  becomes the error of its slot: \<^verbatim>\<open>NotFound\<close> for 404, \<^verbatim>\<open>Conflict\<close> for 409, an
  unclassified error for any other status.
\<close>

definition getBulkOperationError :: "string \<Rightarrow> string \<Rightarrow> bulk_item \<Rightarrow> error option" where
  "getBulkOperationError t i raw =
     (if bi_error raw then
        (if bi_status raw = 404 then Some (createGenericNotFoundError t i)
         else if bi_status raw = 409 then Some (createConflictError t i)
         else Some (GeneralError ''Unexpected bulk response''))
      else None)"

definition encodeHitVersion :: "repository \<Rightarrow> write_resp \<Rightarrow> string" where
  "encodeHitVersion r body = encodeVersion r (wr_seq_no body) (wr_primary_term body)"

section \<open>Single-object operations\<close>

text \<open>
  The options of the operations: an absent \<^verbatim>\<open>overwrite\<close>, \<^verbatim>\<open>force\<close> or
  \<^verbatim>\<open>initialize\<close> is \<open>False\<close>, its default. Options the store model does not read
  (\<^verbatim>\<open>refresh\<close>, \<^verbatim>\<open>require_alias\<close>, source filters) are left out.
\<close>

record create_options =
  co_id :: "string option"
  co_migrationVersion :: js
  co_overwrite :: bool
  co_references :: "reference list option"
  co_originId :: "string option"
  co_initialNamespaces :: "string list option"
  co_version :: "string option"
  co_namespace :: "string option"

record update_options =
  uo_version :: "string option"
  uo_references :: "reference list option"
  uo_upsert :: "js option"
  uo_namespace :: "string option"

record delete_options =
  do_force :: bool
  do_namespace :: "string option"

record increment_options =
  io_migrationVersion :: js
  io_initialize :: bool
  io_upsertAttributes :: "js option"
  io_namespace :: "string option"

text \<open>\<^verbatim>\<open>validateInitialNamespaces\<close>: \<open>None\<close> when it returns, the error when it throws.\<close>

definition validateInitialNamespaces :: "repository \<Rightarrow> string \<Rightarrow> string list option \<Rightarrow> error option" where
  "validateInitialNamespaces r t initialNamespaces =
     (case initialNamespaces of
        None \<Rightarrow> None
      | Some ins \<Rightarrow>
          (if isNamespaceAgnostic r t then
             Some (createBadRequestError ''\"initialNamespaces\" cannot be used on space-agnostic types'')
           else if ins = [] then
             Some (createBadRequestError ''\"initialNamespaces\" must be a non-empty array of strings'')
           else if \<not> isShareable r t \<and> (length ins > 1 \<or> ALL_NAMESPACES_STRING \<in> set ins) then
             Some (createBadRequestError
               ''\"initialNamespaces\" can only specify a single space when used with space-isolated types'')
           else None))"

text \<open>The private \<^verbatim>\<open>_rawToSavedObject\<close>.\<close>

definition repo_rawToSavedObject :: "repository \<Rightarrow> raw_doc \<Rightarrow> so_doc" where
  "repo_rawToSavedObject r raw =
     (let savedObject = rawToSavedObject r raw
      in (if isSingleNamespace r (so_type savedObject)
            then savedObject\<lparr>so_namespaces := Some [namespaceIdToString (so_namespace savedObject)]\<rparr>
            else savedObject)\<lparr>so_namespace := None\<rparr>)"

text \<open>\<^verbatim>\<open>preflightGetNamespaces\<close> and \<^verbatim>\<open>preflightCheckIncludesNamespace\<close>.\<close>

definition preflightGetNamespaces ::
  "repository \<Rightarrow> string \<Rightarrow> string \<Rightarrow> string option \<Rightarrow> world \<Rightarrow> (error + string list option) \<times> world" where
  "preflightGetNamespaces r t i namespace w =
     (if \<not> isMultiNamespace r t then
        (Inl (GeneralError ''Cannot make preflight get request for non-multi-namespace type''), w)
      else
        (case es_get (getIndexForType r t) (generateRawId r None t i) w of
           ((statusCode, body), w1) \<Rightarrow>
             (let indexFound = (statusCode \<noteq> 404)
              in if indexFound \<and> isFoundGetResponse body then
                   (if \<not> rawDocExistsInNamespace r (the body) namespace
                      then (Inl (createConflictError t i), w1)
                      else (Inr (getSavedObjectNamespaces namespace body), w1))
                 else (Inr (getSavedObjectNamespaces namespace None), w1))))"

definition preflightCheckIncludesNamespace ::
  "repository \<Rightarrow> string \<Rightarrow> string \<Rightarrow> string option \<Rightarrow> world \<Rightarrow> (error + raw_doc) \<times> world" where
  "preflightCheckIncludesNamespace r t i namespace w =
     (if \<not> isMultiNamespace r t then
        (Inl (GeneralError ''Cannot make preflight get request for non-multi-namespace type''), w)
      else
        (case es_get (getIndexForType r t) (generateRawId r None t i) w of
           ((statusCode, body), w1) \<Rightarrow>
             (let indexFound = (statusCode \<noteq> 404)
              in case body of
                   None \<Rightarrow> (Inl (createGenericNotFoundError t i), w1)
                 | Some d \<Rightarrow>
                     (if \<not> indexFound \<or> \<not> rawDocExistsInNamespace r d namespace
                        then (Inl (createGenericNotFoundError t i), w1)
                        else (Inr d, w1)))))"

text \<open>\<^verbatim>\<open>get\<close>.\<close>

definition get ::
  "repository \<Rightarrow> string \<Rightarrow> string \<Rightarrow> string option \<Rightarrow> world \<Rightarrow> (error + so_doc) \<times> world" where
  "get r t i options_namespace w =
     (if \<not> allowed r t then (Inl (createGenericNotFoundError t i), w)
      else
        (case normalizeNamespace options_namespace of
           Inl e \<Rightarrow> (Inl e, w)
         | Inr namespace \<Rightarrow>
             (case es_get (getIndexForType r t) (generateRawId r namespace t i) w of
                ((statusCode, body), w1) \<Rightarrow>
                  (let indexNotFound = (statusCode = 404)
                   in case body of
                        None \<Rightarrow> (Inl (createGenericNotFoundError t i), w1)
                      | Some d \<Rightarrow>
                          (if indexNotFound \<or> \<not> rawDocExistsInNamespace r d namespace
                             then (Inl (createGenericNotFoundError t i), w1)
                             else (Inr (getSavedObjectFromSource r t i d), w1))))))"

text \<open>
  \<^verbatim>\<open>create\<close>. The default of \<^verbatim>\<open>options.id\<close> draws a fresh id; the namespace is
  normalised and \<^verbatim>\<open>initialNamespaces\<close> validated before the type is looked up.
\<close>

definition create ::
  "repository \<Rightarrow> string \<Rightarrow> js \<Rightarrow> create_options \<Rightarrow> world \<Rightarrow> (error + so_doc) \<times> world" where
  "create r t attributes options w =
     (let w0 = (case co_id options of None \<Rightarrow> w\<lparr>w_uuid := Suc (w_uuid w)\<rparr> | Some _ \<Rightarrow> w);
          i = (case co_id options of None \<Rightarrow> generateId r (w_uuid w) | Some v \<Rightarrow> v);
          overwrite = co_overwrite options;
          references = (case co_references options of None \<Rightarrow> [] | Some rf \<Rightarrow> rf);
          initialNamespaces = co_initialNamespaces options;
          version = co_version options
      in case normalizeNamespace (co_namespace options) of
           Inl e \<Rightarrow> (Inl e, w0)
         | Inr namespace \<Rightarrow>
      (case validateInitialNamespaces r t initialNamespaces of
           Some e \<Rightarrow> (Inl e, w0)
         | None \<Rightarrow>
      (if \<not> allowed r t then (Inl (createUnsupportedTypeError t), w0)
       else
      (case
         (if isSingleNamespace r t then
            (Inr ((case initialNamespaces of
                     Some ins \<Rightarrow> (case ins of [] \<Rightarrow> None | n # _ \<Rightarrow> Some n)
                   | None \<Rightarrow> namespace), None), w0)
          else if isMultiNamespace r t then
            (if i \<noteq> [] \<and> overwrite then
               (case preflightGetNamespaces r t i namespace w0 of
                  (Inl e, w1) \<Rightarrow> (Inl e, w1)
                | (Inr existingNamespaces, w1) \<Rightarrow>
                    (Inr (None, (case initialNamespaces of
                                   Some ins \<Rightarrow> Some ins
                                 | None \<Rightarrow> existingNamespaces)), w1))
             else
               (Inr (None, (case initialNamespaces of
                              Some ins \<Rightarrow> Some ins
                            | None \<Rightarrow> getSavedObjectNamespaces namespace None)), w0))
          else (Inr (None, None), w0))
       of
         (Inl e, w1) \<Rightarrow> (Inl e, w1)
       | (Inr (savedObjectNamespace, savedObjectNamespaces), w1) \<Rightarrow>
      (case migrateDocument r
              \<lparr>so_id = i, so_type = t,
               so_namespace = (if truthy savedObjectNamespace then savedObjectNamespace else None),
               so_namespaces = savedObjectNamespaces,
               so_originId = co_originId options,
               so_attributes = attributes,
               so_migrationVersion = co_migrationVersion options,
               so_updated_at = Some (w_time w1),
               so_references = Some references,
               so_version = None\<rparr> of
         Inl e \<Rightarrow> (Inl e, w1)
       | Inr migrated \<Rightarrow>
      (let raw = savedObjectToRaw r migrated
       in case (if overwrite \<and> truthy version
                  then (case decodeRequestVersion r (the version) of
                          Inl e \<Rightarrow> Inl e
                        | Inr st \<Rightarrow> Inr (Some st))
                  else Inr None) of
            Inl e \<Rightarrow> (Inl e, w1)
          | Inr ifm \<Rightarrow>
      (case (if i \<noteq> [] \<and> overwrite
               then es_index (getIndexForType r t) (doc_id raw) ifm (doc_source raw) w1
               else es_create (getIndexForType r t) (doc_id raw) ifm (doc_source raw) w1) of
         (Inl e, w2) \<Rightarrow> (Inl e, w2)
       | (Inr body, w2) \<Rightarrow>
           (Inr (repo_rawToSavedObject r
                   (raw\<lparr>doc_seq_no := wr_seq_no body,
                        doc_primary_term := wr_primary_term body\<rparr>)), w2))))))))"

text \<open>
  \<^verbatim>\<open>update\<close>. A \<^verbatim>\<open>NotFound\<close> thrown by the store is replaced by the repository's
  own; any other error is rethrown.
\<close>

definition update ::
  "repository \<Rightarrow> string \<Rightarrow> string \<Rightarrow> js \<Rightarrow> update_options \<Rightarrow> world \<Rightarrow> (error + so_doc) \<times> world" where
  "update r t i attributes options w =
     (if \<not> allowed r t then (Inl (createGenericNotFoundError t i), w)
      else
      (let version = uo_version options;
           references = uo_references options;
           upsert = uo_upsert options
       in case normalizeNamespace (uo_namespace options) of
            Inl e \<Rightarrow> (Inl e, w)
          | Inr namespace \<Rightarrow>
      (case (if isMultiNamespace r t
               then (case preflightCheckIncludesNamespace r t i namespace w of
                       (Inl e, w1) \<Rightarrow> (Inl e, w1)
                     | (Inr d, w1) \<Rightarrow> (Inr (Some d), w1))
               else (Inr None, w)) of
         (Inl e, w1) \<Rightarrow> (Inl e, w1)
       | (Inr preflightResult, w1) \<Rightarrow>
      (let time = w_time w1
       in case
         (case upsert of
            None \<Rightarrow> (Inr None, w1)
          | Some ups \<Rightarrow>
              (case (if isSingleNamespace r t \<and> truthy namespace then (Inr (namespace, None), w1)
                     else if isMultiNamespace r t then
                       (case preflightGetNamespaces r t i namespace w1 of
                          (Inl e, w2) \<Rightarrow> (Inl e, w2)
                        | (Inr nss, w2) \<Rightarrow> (Inr (None, nss), w2))
                     else (Inr (None, None), w1)) of
                 (Inl e, w2) \<Rightarrow> (Inl e, w2)
               | (Inr (savedObjectNamespace, savedObjectNamespaces), w2) \<Rightarrow>
                   (case migrateDocument r
                           \<lparr>so_id = i, so_type = t,
                            so_namespace = savedObjectNamespace,
                            so_namespaces = savedObjectNamespaces,
                            so_originId = None,
                            so_attributes = ups,
                            so_migrationVersion = JUndefined,
                            so_updated_at = Some time,
                            so_references = None,
                            so_version = None\<rparr> of
                      Inl e \<Rightarrow> (Inl e, w2)
                    | Inr migrated \<Rightarrow> (Inr (Some (savedObjectToRaw r migrated)), w2))))
       of
         (Inl e, w2) \<Rightarrow> (Inl e, w2)
       | (Inr rawUpsert, w2) \<Rightarrow>
      (let doc = \<lparr>ud_type = t, ud_attributes = attributes, ud_updated_at = time,
                  ud_references = references\<rparr>
       in case getExpectedVersionProperties r version preflightResult of
            Inl e \<Rightarrow> (Inl e, w2)
          | Inr ifm \<Rightarrow>
      (case es_update (getIndexForType r t) (generateRawId r namespace t i) ifm doc
              (map_option doc_source rawUpsert) w2 of
         (Inl err, w3) \<Rightarrow>
           (if isNotFoundError err then (Inl (createGenericNotFoundError t i), w3)
            else (Inl err, w3))
       | (Inr body, w3) \<Rightarrow>
           (let originId = (case wr_get body of None \<Rightarrow> None | Some src \<Rightarrow> rs_originId src);
                namespaces =
                  (if \<not> isNamespaceAgnostic r t then
                     (case (case wr_get body of None \<Rightarrow> None | Some src \<Rightarrow> rs_namespaces src) of
                        Some nss \<Rightarrow> nss
                      | None \<Rightarrow>
                          [namespaceIdToString
                             (case wr_get body of None \<Rightarrow> None | Some src \<Rightarrow> rs_namespace src)])
                   else [])
            in (Inr \<lparr>so_id = i, so_type = t, so_namespace = None,
                     so_namespaces = Some namespaces,
                     so_originId = (if truthy originId then originId else None),
                     so_attributes = attributes,
                     so_migrationVersion = JUndefined,
                     so_updated_at = Some time,
                     so_references = references,
                     so_version = Some (encodeHitVersion r body)\<rparr>, w3))))))))"

text \<open>\<^verbatim>\<open>delete\<close>: \<open>Inr ()\<close> is the empty object it returns.\<close>

definition delete ::
  "repository \<Rightarrow> string \<Rightarrow> string \<Rightarrow> delete_options \<Rightarrow> world \<Rightarrow> (error + unit) \<times> world" where
  "delete r t i options w =
     (if \<not> allowed r t then (Inl (createGenericNotFoundError t i), w)
      else
      (let force = do_force options
       in case normalizeNamespace (do_namespace options) of
            Inl e \<Rightarrow> (Inl e, w)
          | Inr namespace \<Rightarrow>
      (let rawId = generateRawId r namespace t i
       in case
         (if isMultiNamespace r t then
            (case preflightCheckIncludesNamespace r t i namespace w of
               (Inl e, w1) \<Rightarrow> (Inl e, w1)
             | (Inr preflightResult, w1) \<Rightarrow>
                 (let existingNamespaces =
                        (case getSavedObjectNamespaces None (Some preflightResult) of
                           None \<Rightarrow> []
                         | Some nss \<Rightarrow> nss)
                  in if \<not> force \<and> (length existingNamespaces > 1
                                     \<or> ALL_NAMESPACES_STRING \<in> set existingNamespaces)
                       then (Inl (createBadRequestError
                         ''Unable to delete saved object that exists in multiple namespaces, use the `force` option to delete it anyway''), w1)
                       else (Inr (Some preflightResult), w1)))
          else (Inr None, w))
       of
         (Inl e, w1) \<Rightarrow> (Inl e, w1)
       | (Inr preflightResult, w1) \<Rightarrow>
      (case getExpectedVersionProperties r None preflightResult of
         Inl e \<Rightarrow> (Inl e, w1)
       | Inr ifm \<Rightarrow>
      (case es_delete (getIndexForType r t) rawId ifm w1 of
         (Inl e, w2) \<Rightarrow> (Inl e, w2)
       | (Inr (body, statusCode), w2) \<Rightarrow>
           (let deleted = (db_result body = ''deleted'')
            in if deleted then (Inr (), w2)
               else
                 (let deleteDocNotFound = (db_result body = ''not_found'');
                      deleteIndexNotFound = (db_error_type body = Some ''index_not_found_exception'')
                  in if deleteDocNotFound \<or> deleteIndexNotFound
                       then (Inl (createGenericNotFoundError t i), w2)
                       else (Inl (GeneralError ''Unexpected Elasticsearch DELETE response''), w2))))))))"

text \<open>
  \<^verbatim>\<open>incrementCounter\<close> and \<^verbatim>\<open>incrementCounterInternal\<close>. The public function takes
  its \<^verbatim>\<open>type\<close> and \<^verbatim>\<open>counterFields\<close> arguments as untyped values and checks them;
  the internal one normalises each counter field to a pair of field name and delta.
\<close>

definition isArrayOfCounterFields :: "js \<Rightarrow> bool" where
  "isArrayOfCounterFields counterFields =
     (case counterFields of
        JArr cfs \<Rightarrow>
          list_all (\<lambda>field. isString field
                      \<or> (isObject field \<and> isString (js_prop field ''fieldName''))) cfs
      | _ \<Rightarrow> False)"

definition normalizeCounterField :: "bool \<Rightarrow> js \<Rightarrow> error + js \<times> js" where
  "normalizeCounterField initialize counterField =
     (if isString counterField then
        Inr (counterField, JNum (if initialize then 0 else 1))
      else if counterField = JNull \<or> counterField = JUndefined then
        Inl (GeneralError ''TypeError: cannot destructure'')
      else
        (let incrementBy = (if js_prop counterField ''incrementBy'' = JUndefined
                              then JNum 1 else js_prop counterField ''incrementBy'');
             fieldName = js_prop counterField ''fieldName''
         in Inr (fieldName, if initialize then JNum 0 else incrementBy)))"

fun map_result :: "('a \<Rightarrow> error + 'b) \<Rightarrow> 'a list \<Rightarrow> error + 'b list" where
  "map_result f [] = Inr []"
| "map_result f (x # xs) =
     (case f x of
        Inl e \<Rightarrow> Inl e
      | Inr y \<Rightarrow> (case map_result f xs of Inl e \<Rightarrow> Inl e | Inr ys \<Rightarrow> Inr (y # ys)))"

text \<open>A property key: a field name that is not a string is coerced as JavaScript coerces it.\<close>

definition js_key :: "js \<Rightarrow> string" where
  "js_key v = (case v of JStr s \<Rightarrow> s | JNull \<Rightarrow> ''null'' | _ \<Rightarrow> ''undefined'')"

definition counter_attributes :: "js option \<Rightarrow> (js \<times> js) list \<Rightarrow> js" where
  "counter_attributes upsertAttributes normalizedCounterFields =
     JObj ((case upsertAttributes of Some (JObj kvs) \<Rightarrow> kvs | _ \<Rightarrow> [])
           @ fold (\<lambda>(fieldName, incrementBy) acc. AList.update (js_key fieldName) incrementBy acc)
               normalizedCounterFields [])"

definition incrementCounterInternal ::
  "repository \<Rightarrow> string \<Rightarrow> string \<Rightarrow> js list \<Rightarrow> increment_options \<Rightarrow> world
     \<Rightarrow> (error + so_doc) \<times> world" where
  "incrementCounterInternal r t i counterFields options w =
     (let initialize = io_initialize options;
          upsertAttributes = io_upsertAttributes options
      in case map_result (normalizeCounterField initialize) counterFields of
           Inl e \<Rightarrow> (Inl e, w)
         | Inr normalizedCounterFields \<Rightarrow>
      (case normalizeNamespace (io_namespace options) of
         Inl e \<Rightarrow> (Inl e, w)
       | Inr namespace \<Rightarrow>
      (let time = w_time w
       in case (if isSingleNamespace r t \<and> truthy namespace then (Inr (namespace, None), w)
                else if isMultiNamespace r t then
                  (case preflightGetNamespaces r t i namespace w of
                     (Inl e, w1) \<Rightarrow> (Inl e, w1)
                   | (Inr nss, w1) \<Rightarrow> (Inr (None, nss), w1))
                else (Inr (None, None), w)) of
            (Inl e, w1) \<Rightarrow> (Inl e, w1)
          | (Inr (savedObjectNamespace, savedObjectNamespaces), w1) \<Rightarrow>
      (case migrateDocument r
              \<lparr>so_id = i, so_type = t,
               so_namespace = savedObjectNamespace,
               so_namespaces = savedObjectNamespaces,
               so_originId = None,
               so_attributes = counter_attributes upsertAttributes normalizedCounterFields,
               so_migrationVersion = io_migrationVersion options,
               so_updated_at = Some time,
               so_references = None,
               so_version = None\<rparr> of
         Inl e \<Rightarrow> (Inl e, w1)
       | Inr migrated \<Rightarrow>
      (let raw = savedObjectToRaw r migrated
       in case es_update_script (getIndexForType r t) (doc_id raw)
                 (map fst normalizedCounterFields) (map snd normalizedCounterFields)
                 (run_increment_script (map fst normalizedCounterFields)
                    (map snd normalizedCounterFields) time t)
                 (Some (doc_source raw)) False w1 of
            (Inl e, w2) \<Rightarrow> (Inl e, w2)
          | (Inr (statusCode, None), w2) \<Rightarrow>
              (Inl (GeneralError ''TypeError: body is undefined''), w2)
          | (Inr (statusCode, Some body), w2) \<Rightarrow>
              (let originId = (case wr_get body of None \<Rightarrow> None | Some src \<Rightarrow> rs_originId src)
               in (Inr \<lparr>so_id = i, so_type = t, so_namespace = None,
                        so_namespaces = savedObjectNamespaces,
                        so_originId = (if truthy originId then originId else None),
                        so_attributes =
                          (case wr_get body of None \<Rightarrow> JUndefined | Some src \<Rightarrow> source_bag src t),
                        so_migrationVersion = JUndefined,
                        so_updated_at = Some time,
                        so_references =
                          Some (case (case wr_get body of None \<Rightarrow> None
                                      | Some src \<Rightarrow> rs_references src) of
                                  None \<Rightarrow> [] | Some rf \<Rightarrow> rf),
                        so_version = Some (encodeHitVersion r body)\<rparr>, w2)))))))"

definition incrementCounter ::
  "repository \<Rightarrow> js \<Rightarrow> string \<Rightarrow> js \<Rightarrow> increment_options \<Rightarrow> world \<Rightarrow> (error + so_doc) \<times> world" where
  "incrementCounter r t i counterFields options w =
     (case t of
        JStr ty \<Rightarrow>
          (if \<not> isArrayOfCounterFields counterFields then
             (Inl (GeneralError
               ''\"counterFields\" argument must be of type Array<string | { incrementBy?: number; fieldName: string }>''), w)
           else if \<not> allowed r ty then (Inl (createUnsupportedTypeError ty), w)
           else
             (case counterFields of
                JArr cfs \<Rightarrow> incrementCounterInternal r ty i cfs options w
              | _ \<Rightarrow> (Inl (GeneralError ''unreachable''), w)))
      | _ \<Rightarrow> (Inl (GeneralError ''\"type\" argument must be a string''), w))"

section \<open>Resolve\<close>

text \<open>
  Modelled from the spec: the constants \<^verbatim>\<open>LEGACY_URL_ALIAS_TYPE\<close>,
  \<^verbatim>\<open>CORE_USAGE_STATS_TYPE\<close>, \<^verbatim>\<open>CORE_USAGE_STATS_ID\<close> and
  \<^verbatim>\<open>REPOSITORY_RESOLVE_OUTCOME_STATS\<close> (\<^verbatim>\<open>object_types\<close> and
  \<^verbatim>\<open>core_usage_data\<close> are not part of the sources at hand): the type of a legacy alias
  record, the document that holds the usage counters, and one counter name per outcome kind
  beside the total.
\<close>

definition LEGACY_URL_ALIAS_TYPE :: string where
  "LEGACY_URL_ALIAS_TYPE = ''legacy-url-alias''"

definition CORE_USAGE_STATS_TYPE :: string where
  "CORE_USAGE_STATS_TYPE = ''core-usage-stats''"

definition CORE_USAGE_STATS_ID :: string where
  "CORE_USAGE_STATS_ID = ''core-usage-stats''"

definition STATS_EXACT_MATCH :: string where
  "STATS_EXACT_MATCH = ''resolvedOutcome.exactMatch''"

definition STATS_ALIAS_MATCH :: string where
  "STATS_ALIAS_MATCH = ''resolvedOutcome.aliasMatch''"

definition STATS_CONFLICT :: string where
  "STATS_CONFLICT = ''resolvedOutcome.conflict''"

definition STATS_NOT_FOUND :: string where
  "STATS_NOT_FOUND = ''resolvedOutcome.notFound''"

definition STATS_TOTAL :: string where
  "STATS_TOTAL = ''resolvedOutcome.total''"

datatype outcome = ExactMatch | AliasMatch | ConflictOutcome

record resolve_response =
  saved_object :: so_doc
  outcome :: outcome
  aliasTargetId :: "string option"

text \<open>
  \<^verbatim>\<open>incrementResolveOutcomeStats\<close>: the result of the counter update, error or not, is
  dropped (\<^verbatim>\<open>.catch(() => {})\<close>); only its effect on the world remains. The options of
  the update (\<^verbatim>\<open>{ refresh: false }\<close>) name no namespace and no initial attributes.
\<close>

definition stats_options :: increment_options where
  "stats_options =
     \<lparr>io_migrationVersion = JUndefined, io_initialize = False,
      io_upsertAttributes = None, io_namespace = None\<rparr>"

definition incrementResolveOutcomeStats :: "repository \<Rightarrow> string \<Rightarrow> world \<Rightarrow> world" where
  "incrementResolveOutcomeStats r outcomeStatString w =
     snd (incrementCounterInternal r CORE_USAGE_STATS_TYPE CORE_USAGE_STATS_ID
            [JStr outcomeStatString, JStr STATS_TOTAL] stats_options w)"

definition resolveExactMatch ::
  "repository \<Rightarrow> string \<Rightarrow> string \<Rightarrow> string option \<Rightarrow> world \<Rightarrow> (error + resolve_response) \<times> world" where
  "resolveExactMatch r t i options_namespace w =
     (case get r t i options_namespace w of
        (Inr object, w1) \<Rightarrow>
          (Inr \<lparr>saved_object = object, outcome = ExactMatch, aliasTargetId = None\<rparr>,
           incrementResolveOutcomeStats r STATS_EXACT_MATCH w1)
      | (Inl err, w1) \<Rightarrow>
          (Inl err,
           if isNotFoundError err then incrementResolveOutcomeStats r STATS_NOT_FOUND w1 else w1))"

definition js_string :: "js \<Rightarrow> string" where
  "js_string v = (case v of JStr s \<Rightarrow> s | JNull \<Rightarrow> ''null'' | _ \<Rightarrow> ''undefined'')"

definition resolve ::
  "repository \<Rightarrow> string \<Rightarrow> string \<Rightarrow> string option \<Rightarrow> world \<Rightarrow> (error + resolve_response) \<times> world" where
  "resolve r t i options_namespace w =
     (if \<not> allowed r t then (Inl (createGenericNotFoundError t i), w)
      else
      (case normalizeNamespace options_namespace of
         Inl e \<Rightarrow> (Inl e, w)
       | Inr None \<Rightarrow> resolveExactMatch r t i options_namespace w
       | Inr (Some namespace) \<Rightarrow>
      (let rawAliasId = generateRawLegacyUrlAliasId r namespace t i;
           time = w_time w
       in case es_update_script (getIndexForType r LEGACY_URL_ALIAS_TYPE) rawAliasId [] []
                 (run_resolve_script LEGACY_URL_ALIAS_TYPE time) None True w of
            (Inl e, w1) \<Rightarrow> (Inl e, w1)
          | (Inr (statusCode, body), w1) \<Rightarrow>
      (if statusCode = 404
          \<or> (case body of None \<Rightarrow> False
              | Some b \<Rightarrow> (case wr_get b of None \<Rightarrow> False
                           | Some src \<Rightarrow>
                               js_prop (source_bag src LEGACY_URL_ALIAS_TYPE) ''disabled'' = JBool True))
       then resolveExactMatch r t i options_namespace w1
       else
      (case (case body of None \<Rightarrow> None | Some b \<Rightarrow> wr_get b) of
         None \<Rightarrow> (Inl (GeneralError ''TypeError: get is undefined''), w1)
       | Some src \<Rightarrow>
      (let legacyUrlAlias = source_bag src LEGACY_URL_ALIAS_TYPE;
           targetId = js_string (js_prop legacyUrlAlias ''targetId'');
           objectIndex = getIndexForType r t
       in case es_mget [(objectIndex, generateRawId r (Some namespace) t i),
                        (objectIndex, generateRawId r (Some namespace) t targetId)] w1 of
            ((mgetStatus, docs), w2) \<Rightarrow>
      (case docs of
         [exactMatchDoc, aliasMatchDoc] \<Rightarrow>
           (let foundExactMatch =
                  (case exactMatchDoc of None \<Rightarrow> False
                   | Some d \<Rightarrow> rawDocExistsInNamespace r d (Some namespace));
                foundAliasMatch =
                  (case aliasMatchDoc of None \<Rightarrow> False
                   | Some d \<Rightarrow> rawDocExistsInNamespace r d (Some namespace))
            in if foundExactMatch \<and> foundAliasMatch then
                 (Inr \<lparr>saved_object = getSavedObjectFromSource r t i (the exactMatchDoc),
                       outcome = ConflictOutcome, aliasTargetId = Some targetId\<rparr>,
                  incrementResolveOutcomeStats r STATS_CONFLICT w2)
               else if foundExactMatch then
                 (Inr \<lparr>saved_object = getSavedObjectFromSource r t i (the exactMatchDoc),
                       outcome = ExactMatch, aliasTargetId = None\<rparr>,
                  incrementResolveOutcomeStats r STATS_EXACT_MATCH w2)
               else if foundAliasMatch then
                 (Inr \<lparr>saved_object = getSavedObjectFromSource r t targetId (the aliasMatchDoc),
                       outcome = AliasMatch, aliasTargetId = Some targetId\<rparr>,
                  incrementResolveOutcomeStats r STATS_ALIAS_MATCH w2)
               else
                 (Inl (createGenericNotFoundError t i),
                  incrementResolveOutcomeStats r STATS_NOT_FOUND w2))
       | _ \<Rightarrow> (Inl (GeneralError ''TypeError: doc is undefined''), w2))))))))"

section \<open>Find\<close>

datatype find_type = TypeString string | TypeArray "string list"

record pit =
  pit_id :: string
  pit_keepAlive :: "string option"

record find_options =
  fo_search :: "string option"
  fo_defaultSearchOperator :: "string option"
  fo_searchFields :: "string list option"
  fo_rootSearchFields :: "string list option"
  fo_hasReference :: js
  fo_hasReferenceOperator :: "string option"
  fo_page :: "int option"
  fo_perPage :: "int option"
  fo_pit :: "pit option"
  fo_searchAfter :: "js list option"
  fo_sortField :: "string option"
  fo_sortOrder :: "string option"
  fo_fields :: "string list option"
  fo_namespaces :: "string list option"
  fo_type :: "find_type option"
  fo_typeToNamespacesMap :: "(string \<times> string list option) list option"
  fo_filter :: "js option"
  fo_preference :: "string option"
  fo_aggs :: "js option"

text \<open>The options \<^verbatim>\<open>find\<close> passes on to \<^verbatim>\<open>getSearchDsl\<close>.\<close>

record dsl_options =
  dsl_search :: "string option"
  dsl_defaultSearchOperator :: string
  dsl_searchFields :: "string list option"
  dsl_pit :: "pit option"
  dsl_rootSearchFields :: "string list option"
  dsl_type :: "string list"
  dsl_searchAfter :: "js list option"
  dsl_sortField :: "string option"
  dsl_sortOrder :: "string option"
  dsl_namespaces :: "string list option"
  dsl_typeToNamespacesMap :: "(string \<times> string list option) list option"
  dsl_hasReference :: js
  dsl_hasReferenceOperator :: "string option"
  dsl_kueryNode :: "js option"

record search_hit =
  hit_doc :: raw_doc
  hit_score :: js
  hit_sort :: js

record search_reply =
  sr_total :: int
  sr_hits :: "search_hit list"
  sr_aggregations :: "js option"
  sr_pit_id :: "string option"

datatype filter_error = KQLSyntaxError string | OtherFilterError error

text \<open>
  The helpers \<^verbatim>\<open>find\<close> imports from files that are not part of the sources at hand
  (\<^verbatim>\<open>filter_utils\<close>, \<^verbatim>\<open>aggregations\<close>, \<^verbatim>\<open>included_fields\<close>,
  \<^verbatim>\<open>search_dsl\<close>) and the store's answer to a search are parameters. The fragment of
  \<^verbatim>\<open>getSearchDsl\<close> is kept apart from the members \<^verbatim>\<open>find\<close> itself writes into the
  body.
\<close>

record find_deps =
  validateConvertFilterToKueryNode :: "string list \<Rightarrow> js \<Rightarrow> filter_error + js"
  validateAndConvertAggregations :: "string list \<Rightarrow> js \<Rightarrow> string + js"
  includedFields :: "find_type option \<Rightarrow> string list option \<Rightarrow> string list option"
  getSearchDsl :: "dsl_options \<Rightarrow> js"
  search_answer :: "es_options \<Rightarrow> nat \<times> search_reply"

definition es_search :: "find_deps \<Rightarrow> es_options \<Rightarrow> world \<Rightarrow> (nat \<times> search_reply) \<times> world" where
  "es_search fd esOptions w = (search_answer fd esOptions, log_call (CallSearch esOptions) w)"

text \<open>
  Modelled from the spec: \<^verbatim>\<open>FIND_DEFAULT_PAGE\<close>, \<^verbatim>\<open>FIND_DEFAULT_PER_PAGE\<close> and
  \<^verbatim>\<open>createEmptyFindResponse\<close> of \<^verbatim>\<open>utils.ts\<close>, which is not part of the sources at
  hand; the defaults are those of the documentation comment of \<^verbatim>\<open>find\<close>
  (\<^verbatim>\<open>options.page=1\<close>, \<^verbatim>\<open>options.perPage=20\<close>).
\<close>

definition FIND_DEFAULT_PAGE :: int where
  "FIND_DEFAULT_PAGE = 1"

definition FIND_DEFAULT_PER_PAGE :: int where
  "FIND_DEFAULT_PER_PAGE = 20"

record find_response =
  fr_page :: int
  fr_per_page :: int
  fr_total :: int
  fr_saved_objects :: "(so_doc \<times> js \<times> js) list"
  fr_aggregations :: "js option"
  fr_pit_id :: "string option"

definition createEmptyFindResponse :: "find_options \<Rightarrow> find_response" where
  "createEmptyFindResponse options =
     \<lparr>fr_page = (case fo_page options of None \<Rightarrow> FIND_DEFAULT_PAGE | Some p \<Rightarrow> p),
      fr_per_page = (case fo_perPage options of None \<Rightarrow> FIND_DEFAULT_PER_PAGE | Some p \<Rightarrow> p),
      fr_total = 0, fr_saved_objects = [], fr_aggregations = None, fr_pit_id = None\<rparr>"

text \<open>Truthiness of \<^verbatim>\<open>options.type\<close> and of an untyped value.\<close>

definition type_truthy :: "find_type option \<Rightarrow> bool" where
  "type_truthy t = (case t of None \<Rightarrow> False | Some (TypeString s) \<Rightarrow> s \<noteq> [] | Some (TypeArray _) \<Rightarrow> True)"

definition js_truthy :: "js \<Rightarrow> bool" where
  "js_truthy v =
     (case v of
        JUndefined \<Rightarrow> False | JNull \<Rightarrow> False | JBool b \<Rightarrow> b | JNum n \<Rightarrow> n \<noteq> 0
      | JStr s \<Rightarrow> s \<noteq> [] | JArr _ \<Rightarrow> True | JObj _ \<Rightarrow> True)"

text \<open>
  The argument checks at the head of \<^verbatim>\<open>find\<close>, in the order of the source:
  \<open>None\<close> when none of them throws.
\<close>

definition find_preconditions :: "find_options \<Rightarrow> error option" where
  "find_preconditions options =
     (let namespaces = fo_namespaces options;
          ty = fo_type options;
          typeToNamespacesMap = fo_typeToNamespacesMap options;
          preference = fo_preference options;
          pit = fo_pit options
      in if \<not> type_truthy ty \<and> typeToNamespacesMap = None then
           Some (createBadRequestError ''options.type must be a string or an array of strings'')
         else if namespaces = Some [] \<and> typeToNamespacesMap = None then
           Some (createBadRequestError ''options.namespaces cannot be an empty array'')
         else if type_truthy ty \<and> typeToNamespacesMap \<noteq> None then
           Some (createBadRequestError
             ''options.type must be an empty string when options.typeToNamespacesMap is used'')
         else if (namespaces = None \<or> namespaces \<noteq> Some []) \<and> typeToNamespacesMap \<noteq> None then
           Some (createBadRequestError
             ''options.namespaces must be an empty array when options.typeToNamespacesMap is used'')
         else if truthy preference \<and> pit \<noteq> None then
           Some (createBadRequestError
             ''options.preference must be excluded when options.pit is used'')
         else None)"

text \<open>
  \<^verbatim>\<open>find\<close>, with the request it builds (\<^verbatim>\<open>esOptions\<close>), the list of types it
  searches and the conversions of \<^verbatim>\<open>filter\<close> and \<^verbatim>\<open>aggs\<close> named apart. The lists
  \<^verbatim>\<open>searchFields\<close> and \<^verbatim>\<open>fields\<close> are arrays by their type, so the two
  \<^verbatim>\<open>Array.isArray\<close> checks cannot fail and are not written.
\<close>

definition find_esOptions ::
  "repository \<Rightarrow> find_deps \<Rightarrow> find_options \<Rightarrow> string list \<Rightarrow> js option \<Rightarrow> js option \<Rightarrow> es_options" where
  "find_esOptions r fd options allowedTypes kueryNode aggsObject =
     (let page = (case fo_page options of None \<Rightarrow> FIND_DEFAULT_PAGE | Some p \<Rightarrow> p);
          perPage = (case fo_perPage options of None \<Rightarrow> FIND_DEFAULT_PER_PAGE | Some p \<Rightarrow> p);
          pit = fo_pit options;
          searchAfter = fo_searchAfter options
      in \<lparr>eo_index = (if pit \<noteq> None then None else Some (getIndicesForTypes r allowedTypes)),
          eo_from = (if searchAfter \<noteq> None then None else Some (perPage * (page - 1))),
          eo_source = includedFields fd (fo_type options) (fo_fields options),
          eo_preference = fo_preference options,
          eo_rest_total_hits_as_int = True,
          eo_size = perPage,
          eo_body =
            \<lparr>sb_size = perPage,
             sb_seq_no_primary_term = True,
             sb_from = perPage * (page - 1),
             sb_source = includedFields fd (fo_type options) (fo_fields options),
             sb_aggs = aggsObject,
             sb_dsl = getSearchDsl fd
               \<lparr>dsl_search = fo_search options,
                dsl_defaultSearchOperator =
                  (case fo_defaultSearchOperator options of None \<Rightarrow> ''OR'' | Some v \<Rightarrow> v),
                dsl_searchFields = fo_searchFields options,
                dsl_pit = pit,
                dsl_rootSearchFields = fo_rootSearchFields options,
                dsl_type = allowedTypes,
                dsl_searchAfter = searchAfter,
                dsl_sortField = fo_sortField options,
                dsl_sortOrder = fo_sortOrder options,
                dsl_namespaces = fo_namespaces options,
                dsl_typeToNamespacesMap = fo_typeToNamespacesMap options,
                dsl_hasReference = fo_hasReference options,
                dsl_hasReferenceOperator = fo_hasReferenceOperator options,
                dsl_kueryNode = kueryNode\<rparr>\<rparr>\<rparr>)"

definition find_kueryNode :: "find_deps \<Rightarrow> string list \<Rightarrow> js option \<Rightarrow> error + js option" where
  "find_kueryNode fd allowedTypes filter_option =
     (case filter_option of
        None \<Rightarrow> Inr None
      | Some f \<Rightarrow>
          (if js_truthy f then
             (case validateConvertFilterToKueryNode fd allowedTypes f of
                Inl (KQLSyntaxError msg) \<Rightarrow>
                  Inl (createBadRequestError (''KQLSyntaxError: '' @ msg))
              | Inl (OtherFilterError e) \<Rightarrow> Inl e
              | Inr node \<Rightarrow> Inr (Some node))
           else Inr None))"

definition find_aggsObject :: "find_deps \<Rightarrow> string list \<Rightarrow> js option \<Rightarrow> error + js option" where
  "find_aggsObject fd allowedTypes aggs =
     (case aggs of
        None \<Rightarrow> Inr None
      | Some a \<Rightarrow>
          (if js_truthy a then
             (case validateAndConvertAggregations fd allowedTypes a of
                Inl msg \<Rightarrow> Inl (createBadRequestError (''Invalid aggregation: '' @ msg))
              | Inr ao \<Rightarrow> Inr (Some ao))
           else Inr None))"

definition find_types :: "find_options \<Rightarrow> string list" where
  "find_types options =
     (if type_truthy (fo_type options) then
        (case fo_type options of
           Some (TypeArray ts) \<Rightarrow> ts
         | Some (TypeString s) \<Rightarrow> [s]
         | None \<Rightarrow> [])
      else unique (map fst (case fo_typeToNamespacesMap options of None \<Rightarrow> [] | Some m \<Rightarrow> m)))"

definition find ::
  "repository \<Rightarrow> find_deps \<Rightarrow> find_options \<Rightarrow> world \<Rightarrow> (error + find_response) \<times> world" where
  "find r fd options w =
     (let page = (case fo_page options of None \<Rightarrow> FIND_DEFAULT_PAGE | Some p \<Rightarrow> p);
          perPage = (case fo_perPage options of None \<Rightarrow> FIND_DEFAULT_PER_PAGE | Some p \<Rightarrow> p)
      in case find_preconditions options of
           Some e \<Rightarrow> (Inl e, w)
         | None \<Rightarrow>
      (let types = find_types options;
           allowedTypes = filter (allowed r) types
       in if allowedTypes = [] then (Inr (createEmptyFindResponse options), w)
          else
      (case find_kueryNode fd allowedTypes (fo_filter options) of
         Inl e \<Rightarrow> (Inl e, w)
       | Inr kueryNode \<Rightarrow>
      (case find_aggsObject fd allowedTypes (fo_aggs options) of
         Inl e \<Rightarrow> (Inl e, w)
       | Inr aggsObject \<Rightarrow>
      (case es_search fd (find_esOptions r fd options allowedTypes kueryNode aggsObject) w of
         ((statusCode, body), w1) \<Rightarrow>
           (if statusCode = 404 then
              (Inr \<lparr>fr_page = page, fr_per_page = perPage, fr_total = 0,
                    fr_saved_objects = [], fr_aggregations = None, fr_pit_id = None\<rparr>, w1)
            else
              (Inr \<lparr>fr_page = page, fr_per_page = perPage, fr_total = sr_total body,
                    fr_saved_objects =
                      map (\<lambda>h. (repo_rawToSavedObject r (hit_doc h), hit_score h, hit_sort h))
                        (sr_hits body),
                    fr_aggregations = sr_aggregations body,
                    fr_pit_id = sr_pit_id body\<rparr>, w1)))))))"

section \<open>Bulk operations\<close>

text \<open>
  The \<^verbatim>\<open>Either\<close> of the source, the error record of a failed item
  (\<^verbatim>\<open>{id, type, error}\<close>, with the \<^verbatim>\<open>isNotOverwritable\<close> mark of
  \<^verbatim>\<open>bulkCreate\<close> and \<^verbatim>\<open>checkConflicts\<close>) and \<^verbatim>\<open>errorContent\<close>. A slot of a
  result array is \<open>Inl\<close> of an error record or \<open>Inr\<close> of a saved object.
\<close>

datatype ('l, 'r) either = Left 'l | Right 'r

definition isLeft :: "('l, 'r) either \<Rightarrow> bool" where
  "isLeft e = (case e of Left _ \<Rightarrow> True | Right _ \<Rightarrow> False)"

definition isRight :: "('l, 'r) either \<Rightarrow> bool" where
  "isRight e = (case e of Left _ \<Rightarrow> False | Right _ \<Rightarrow> True)"

record bulk_error =
  be_id :: "string option"
  be_type :: string
  be_error :: error
  be_isNotOverwritable :: bool

definition errorContent :: "error \<Rightarrow> error" where
  "errorContent e = e"

definition item_error :: "string option \<Rightarrow> string \<Rightarrow> error \<Rightarrow> bulk_error" where
  "item_error i t e = \<lparr>be_id = i, be_type = t, be_error = e, be_isNotOverwritable = False\<rparr>"

text \<open>\<^verbatim>\<open>docs[esRequestIndex]\<close> and \<^verbatim>\<open>items[esRequestIndex]\<close>: undefined out of range.\<close>

definition at_index :: "'a list \<Rightarrow> nat \<Rightarrow> 'a option" where
  "at_index xs n = (if n < length xs then Some (xs ! n) else None)"

definition docs_at :: "(nat \<times> raw_doc option list) option \<Rightarrow> nat \<Rightarrow> raw_doc option" where
  "docs_at response n =
     (case response of
        None \<Rightarrow> None
      | Some (statusCode, docs) \<Rightarrow> (case at_index docs n of None \<Rightarrow> None | Some d \<Rightarrow> d))"

text \<open>The batched multi-get of a bulk operation, sent only when there is something to get.\<close>

definition bulk_mget ::
  "(string \<times> string) list \<Rightarrow> world \<Rightarrow> (nat \<times> raw_doc option list) option \<times> world" where
  "bulk_mget bulkGetDocs w =
     (if bulkGetDocs \<noteq> [] then (case es_mget bulkGetDocs w of (resp, w1) \<Rightarrow> (Some resp, w1))
      else (None, w))"

definition bulk_write :: "bulk_op list \<Rightarrow> world \<Rightarrow> bulk_item list option \<times> world" where
  "bulk_write params w =
     (if params \<noteq> [] then (case es_bulk params w of (items, w1) \<Rightarrow> (Some items, w1))
      else (None, w))"

definition items_at :: "bulk_item list option \<Rightarrow> nat \<Rightarrow> bulk_item option" where
  "items_at response n = (case response of None \<Rightarrow> None | Some items \<Rightarrow> at_index items n)"

subsection \<open>bulkGet and checkConflicts\<close>

record bulk_get_object =
  bg_type :: string
  bg_id :: string
  bg_fields :: "string list option"

text \<open>
  The first pass over the input: an item of a type that is not allowed becomes a
  \<open>Left\<close>; every other item becomes a \<open>Right\<close> that records its position in the
  multi-get (\<^verbatim>\<open>bulkGetRequestIndexCounter++\<close>, the first argument below).
\<close>

fun bulkGet_expectedBulkGetResults ::
  "repository \<Rightarrow> nat \<Rightarrow> bulk_get_object list \<Rightarrow> (bulk_error, bulk_get_object \<times> nat) either list" where
  "bulkGet_expectedBulkGetResults r n [] = []"
| "bulkGet_expectedBulkGetResults r n (object # rest) =
     (if \<not> allowed r (bg_type object) then
        Left (item_error (Some (bg_id object)) (bg_type object)
                (errorContent (createUnsupportedTypeError (bg_type object))))
          # bulkGet_expectedBulkGetResults r n rest
      else Right (object, n) # bulkGet_expectedBulkGetResults r (Suc n) rest)"

fun rights :: "('l, 'r) either list \<Rightarrow> 'r list" where
  "rights [] = []"
| "rights (Left e # xs) = rights xs"
| "rights (Right v # xs) = v # rights xs"

definition bulkGet_slot ::
  "repository \<Rightarrow> string option \<Rightarrow> (nat \<times> raw_doc option list) option
     \<Rightarrow> (bulk_error, bulk_get_object \<times> nat) either \<Rightarrow> bulk_error + so_doc" where
  "bulkGet_slot r namespace bulkGetResponse expectedResult =
     (case expectedResult of
        Left e \<Rightarrow> Inl e
      | Right (object, esRequestIndex) \<Rightarrow>
          (case docs_at bulkGetResponse esRequestIndex of
             None \<Rightarrow>
               Inl (item_error (Some (bg_id object)) (bg_type object)
                      (errorContent (createGenericNotFoundError (bg_type object) (bg_id object))))
           | Some doc \<Rightarrow>
               (if \<not> rawDocExistsInNamespace r doc namespace then
                  Inl (item_error (Some (bg_id object)) (bg_type object)
                         (errorContent (createGenericNotFoundError (bg_type object) (bg_id object))))
                else Inr (getSavedObjectFromSource r (bg_type object) (bg_id object) doc))))"

definition bulkGet ::
  "repository \<Rightarrow> bulk_get_object list \<Rightarrow> string option \<Rightarrow> world
     \<Rightarrow> (error + (bulk_error + so_doc) list) \<times> world" where
  "bulkGet r objects options_namespace w =
     (case normalizeNamespace options_namespace of
        Inl e \<Rightarrow> (Inl e, w)
      | Inr namespace \<Rightarrow>
          (if objects = [] then (Inr [], w)
           else
             (let expectedBulkGetResults = bulkGet_expectedBulkGetResults r 0 objects;
                  bulkGetDocs =
                    map (\<lambda>(object, n). (getIndexForType r (bg_type object),
                                          generateRawId r namespace (bg_type object) (bg_id object)))
                      (rights expectedBulkGetResults)
              in case bulk_mget bulkGetDocs w of
                   (bulkGetResponse, w1) \<Rightarrow>
                     (Inr (map (bulkGet_slot r namespace bulkGetResponse) expectedBulkGetResults),
                      w1))))"

text \<open>
  \<^verbatim>\<open>checkConflicts\<close>: the early return on an empty input comes first; its first pass
  over the input makes the same check, with the same error, as the one of \<^verbatim>\<open>bulkGet\<close>.
\<close>

definition checkConflicts_errors ::
  "repository \<Rightarrow> string option \<Rightarrow> (nat \<times> raw_doc option list) option
     \<Rightarrow> (bulk_error, bulk_get_object \<times> nat) either \<Rightarrow> bulk_error list" where
  "checkConflicts_errors r namespace bulkGetResponse expectedResult =
     (case expectedResult of
        Left e \<Rightarrow> [e]
      | Right (object, esRequestIndex) \<Rightarrow>
          (case docs_at bulkGetResponse esRequestIndex of
             None \<Rightarrow> []
           | Some doc \<Rightarrow>
               [\<lparr>be_id = Some (bg_id object), be_type = bg_type object,
                 be_error = errorContent (createConflictError (bg_type object) (bg_id object)),
                 be_isNotOverwritable = (\<not> rawDocExistsInNamespace r doc namespace)\<rparr>]))"

definition checkConflicts ::
  "repository \<Rightarrow> bulk_get_object list \<Rightarrow> string option \<Rightarrow> world
     \<Rightarrow> (error + bulk_error list) \<times> world" where
  "checkConflicts r objects options_namespace w =
     (if objects = [] then (Inr [], w)
      else
        (case normalizeNamespace options_namespace of
           Inl e \<Rightarrow> (Inl e, w)
         | Inr namespace \<Rightarrow>
             (let expectedBulkGetResults = bulkGet_expectedBulkGetResults r 0 objects;
                  bulkGetDocs =
                    map (\<lambda>(object, n). (getIndexForType r (bg_type object),
                                          generateRawId r namespace (bg_type object) (bg_id object)))
                      (rights expectedBulkGetResults)
              in case bulk_mget bulkGetDocs w of
                   (bulkGetResponse, w1) \<Rightarrow>
                     (Inr (concat (map (checkConflicts_errors r namespace bulkGetResponse)
                                     expectedBulkGetResults)), w1))))"

subsection \<open>bulkCreate\<close>

record bulk_create_object =
  bc_type :: string
  bc_id :: "string option"
  bc_attributes :: js
  bc_references :: "reference list option"
  bc_migrationVersion :: js
  bc_originId :: "string option"
  bc_initialNamespaces :: "string list option"
  bc_version :: "string option"

record bulk_create_expected =
  ce_method :: bulk_action
  ce_object :: bulk_create_object
  ce_esRequestIndex :: "nat option"

text \<open>
  The first pass: the arguments are the counter of the multi-get positions and the state
  of the id generator, which an item without an id advances.
\<close>

fun bulkCreate_expectedResults ::
  "repository \<Rightarrow> bool \<Rightarrow> nat \<Rightarrow> nat \<Rightarrow> bulk_create_object list
     \<Rightarrow> (bulk_error, bulk_create_expected) either list \<times> nat" where
  "bulkCreate_expectedResults r overwrite n u [] = ([], u)"
| "bulkCreate_expectedResults r overwrite n u (object # rest) =
     (let error = (if \<not> allowed r (bc_type object)
                     then Some (createUnsupportedTypeError (bc_type object))
                     else validateInitialNamespaces r (bc_type object) (bc_initialNamespaces object))
      in case error of
           Some e \<Rightarrow>
             (case bulkCreate_expectedResults r overwrite n u rest of
                (es, u') \<Rightarrow>
                  (Left (item_error (bc_id object) (bc_type object) (errorContent e)) # es, u'))
         | None \<Rightarrow>
             (let method = (if truthy (bc_id object) \<and> overwrite then ActIndex else ActCreate);
                  requiresNamespacesCheck = (truthy (bc_id object) \<and> isMultiNamespace r (bc_type object));
                  object' = (if bc_id object = None then object\<lparr>bc_id := Some (generateId r u)\<rparr>
                             else object);
                  u1 = (if bc_id object = None then Suc u else u)
              in case bulkCreate_expectedResults r overwrite
                        (if requiresNamespacesCheck then Suc n else n) u1 rest of
                   (es, u') \<Rightarrow>
                     (Right \<lparr>ce_method = method, ce_object = object',
                             ce_esRequestIndex = (if requiresNamespacesCheck then Some n else None)\<rparr>
                        # es, u')))"

record bulk_create_result =
  cr_esRequestIndex :: nat
  cr_requestedId :: "string option"
  cr_rawMigratedDoc :: raw_doc

text \<open>
  The second pass, for one provisionally valid item: \<open>Inl\<close> when the version codec or
  the migrator throws, which ends the whole call; otherwise a \<open>Left\<close> (the document exists
  outside the namespace) or the migrated raw document with the write to send for it.
\<close>

definition bulkCreate_prepare ::
  "repository \<Rightarrow> bool \<Rightarrow> string option \<Rightarrow> string \<Rightarrow> (nat \<times> raw_doc option list) option
     \<Rightarrow> bulk_create_expected \<Rightarrow> error + (bulk_error, raw_doc \<times> bulk_op) either" where
  "bulkCreate_prepare r overwrite namespace time bulkGetResponse expected =
     (let object = ce_object expected;
          initialNamespaces = bc_initialNamespaces object;
          version = bc_version object;
          indexFound = (case bulkGetResponse of None \<Rightarrow> True | Some (statusCode, docs) \<Rightarrow> statusCode \<noteq> 404);
          actualResult = (case ce_esRequestIndex expected of
                            None \<Rightarrow> None
                          | Some n \<Rightarrow> (if indexFound then docs_at bulkGetResponse n else None));
          docFound = (indexFound \<and> actualResult \<noteq> None)
      in if ce_esRequestIndex expected \<noteq> None \<and> docFound
            \<and> \<not> rawDocExistsInNamespace r (the actualResult) namespace then
           Inr (Left \<lparr>be_id = bc_id object, be_type = bc_type object,
                      be_error = errorContent (createConflictError (bc_type object)
                                    (case bc_id object of None \<Rightarrow> [] | Some v \<Rightarrow> v)),
                      be_isNotOverwritable = True\<rparr>)
         else
      (let savedObjectNamespace =
             (if ce_esRequestIndex expected = None \<and> isSingleNamespace r (bc_type object) then
                (case initialNamespaces of
                   Some ins \<Rightarrow> (case ins of [] \<Rightarrow> None | v # _ \<Rightarrow> Some v)
                 | None \<Rightarrow> namespace)
              else None);
           savedObjectNamespaces =
             (if ce_esRequestIndex expected \<noteq> None then
                (case initialNamespaces of
                   Some ins \<Rightarrow> Some ins
                 | None \<Rightarrow> getSavedObjectNamespaces namespace (if docFound then actualResult else None))
              else if \<not> isSingleNamespace r (bc_type object) \<and> isMultiNamespace r (bc_type object) then
                (case initialNamespaces of
                   Some ins \<Rightarrow> Some ins
                 | None \<Rightarrow> getSavedObjectNamespaces namespace None)
              else None)
       in case getExpectedVersionProperties r version actualResult of
            Inl e \<Rightarrow> Inl e
          | Inr versionProperties \<Rightarrow>
      (case migrateDocument r
              \<lparr>so_id = (case bc_id object of None \<Rightarrow> [] | Some v \<Rightarrow> v),
               so_type = bc_type object,
               so_namespace = (if truthy savedObjectNamespace then savedObjectNamespace else None),
               so_namespaces = savedObjectNamespaces,
               so_originId = bc_originId object,
               so_attributes = bc_attributes object,
               so_migrationVersion = bc_migrationVersion object,
               so_updated_at = Some time,
               so_references = Some (case bc_references object of None \<Rightarrow> [] | Some rf \<Rightarrow> rf),
               so_version = None\<rparr> of
         Inl e \<Rightarrow> Inl e
       | Inr migrated \<Rightarrow>
           (let rawMigratedDoc = savedObjectToRaw r migrated;
                ifm = (if overwrite then versionProperties else None)
            in Inr (Right (rawMigratedDoc,
                 (case ce_method expected of
                    ActIndex \<Rightarrow> OpIndex (getIndexForType r (bc_type object)) (doc_id rawMigratedDoc)
                                  ifm (doc_source rawMigratedDoc)
                  | _ \<Rightarrow> OpCreate (getIndexForType r (bc_type object)) (doc_id rawMigratedDoc)
                           ifm (doc_source rawMigratedDoc))))))))"

text \<open>
  The second pass over the list: the counter is \<^verbatim>\<open>bulkRequestIndexCounter\<close>, the
  operations are \<^verbatim>\<open>bulkCreateParams\<close>. The first item that throws ends the call.
\<close>

fun bulkCreate_expectedBulkResults ::
  "repository \<Rightarrow> bool \<Rightarrow> string option \<Rightarrow> string \<Rightarrow> (nat \<times> raw_doc option list) option \<Rightarrow> nat
     \<Rightarrow> (bulk_error, bulk_create_expected) either list
     \<Rightarrow> error + ((bulk_error, bulk_create_result) either list \<times> bulk_op list)" where
  "bulkCreate_expectedBulkResults r overwrite namespace time resp n [] = Inr ([], [])"
| "bulkCreate_expectedBulkResults r overwrite namespace time resp n (Left e # rest) =
     (case bulkCreate_expectedBulkResults r overwrite namespace time resp n rest of
        Inl x \<Rightarrow> Inl x
      | Inr (es, ops) \<Rightarrow> Inr (Left e # es, ops))"
| "bulkCreate_expectedBulkResults r overwrite namespace time resp n (Right v # rest) =
     (case bulkCreate_prepare r overwrite namespace time resp v of
        Inl x \<Rightarrow> Inl x
      | Inr (Left e) \<Rightarrow>
          (case bulkCreate_expectedBulkResults r overwrite namespace time resp n rest of
             Inl x \<Rightarrow> Inl x
           | Inr (es, ops) \<Rightarrow> Inr (Left e # es, ops))
      | Inr (Right (rawMigratedDoc, op)) \<Rightarrow>
          (case bulkCreate_expectedBulkResults r overwrite namespace time resp (Suc n) rest of
             Inl x \<Rightarrow> Inl x
           | Inr (es, ops) \<Rightarrow>
               Inr (Right \<lparr>cr_esRequestIndex = n, cr_requestedId = bc_id (ce_object v),
                           cr_rawMigratedDoc = rawMigratedDoc\<rparr> # es, op # ops)))"

definition bulkCreate_slot ::
  "repository \<Rightarrow> bulk_item list option \<Rightarrow> (bulk_error, bulk_create_result) either
     \<Rightarrow> error + (bulk_error + so_doc)" where
  "bulkCreate_slot r bulkResponse expectedResult =
     (case expectedResult of
        Left e \<Rightarrow> Inr (Inl e)
      | Right v \<Rightarrow>
          (case items_at bulkResponse (cr_esRequestIndex v) of
             None \<Rightarrow> Inl (GeneralError ''TypeError: rawResponse is undefined'')
           | Some rawResponse \<Rightarrow>
               (case getBulkOperationError (rs_type (doc_source (cr_rawMigratedDoc v)))
                       (case cr_requestedId v of None \<Rightarrow> [] | Some x \<Rightarrow> x) rawResponse of
                  Some error \<Rightarrow>
                    Inr (Inl (item_error (cr_requestedId v)
                                (rs_type (doc_source (cr_rawMigratedDoc v))) error))
                | None \<Rightarrow>
                    Inr (Inr (repo_rawToSavedObject r
                                ((cr_rawMigratedDoc v)\<lparr>doc_seq_no := bi_seq_no rawResponse,
                                    doc_primary_term := bi_primary_term rawResponse\<rparr>))))))"

definition bulkCreate ::
  "repository \<Rightarrow> bulk_create_object list \<Rightarrow> create_options \<Rightarrow> world
     \<Rightarrow> (error + (bulk_error + so_doc) list) \<times> world" where
  "bulkCreate r objects options w =
     (let overwrite = co_overwrite options
      in case normalizeNamespace (co_namespace options) of
           Inl e \<Rightarrow> (Inl e, w)
         | Inr namespace \<Rightarrow>
      (let time = w_time w
       in case bulkCreate_expectedResults r overwrite 0 (w_uuid w) objects of
            (expectedResults, u) \<Rightarrow>
      (let w0 = w\<lparr>w_uuid := u\<rparr>;
           bulkGetDocs =
             map (\<lambda>v. (getIndexForType r (bc_type (ce_object v)),
                        generateRawId r namespace (bc_type (ce_object v))
                          (case bc_id (ce_object v) of None \<Rightarrow> [] | Some x \<Rightarrow> x)))
               (filter (\<lambda>v. ce_esRequestIndex v \<noteq> None) (rights expectedResults))
       in case bulk_mget bulkGetDocs w0 of
            (bulkGetResponse, w1) \<Rightarrow>
      (case bulkCreate_expectedBulkResults r overwrite namespace time bulkGetResponse 0
              expectedResults of
         Inl e \<Rightarrow> (Inl e, w1)
       | Inr (expectedBulkResults, bulkCreateParams) \<Rightarrow>
      (case bulk_write bulkCreateParams w1 of
         (bulkResponse, w2) \<Rightarrow>
           (case map_result (bulkCreate_slot r bulkResponse) expectedBulkResults of
              Inl e \<Rightarrow> (Inl e, w2)
            | Inr saved_objects \<Rightarrow> (Inr saved_objects, w2)))))))"

subsection \<open>bulkUpdate\<close>

record bulk_update_object =
  bu_type :: string
  bu_id :: string
  bu_attributes :: js
  bu_references :: "reference list option"
  bu_version :: "string option"
  bu_namespace :: "string option"

record bulk_update_expected =
  ue_type :: string
  ue_id :: string
  ue_version :: "string option"
  ue_documentToSave :: update_doc
  ue_objectNamespace :: "string option"
  ue_esRequestIndex :: "nat option"

fun bulkUpdate_expectedBulkGetResults ::
  "repository \<Rightarrow> string \<Rightarrow> nat \<Rightarrow> bulk_update_object list
     \<Rightarrow> (bulk_error, bulk_update_expected) either list" where
  "bulkUpdate_expectedBulkGetResults r time n [] = []"
| "bulkUpdate_expectedBulkGetResults r time n (object # rest) =
     (if \<not> allowed r (bu_type object) then
        Left (item_error (Some (bu_id object)) (bu_type object)
                (errorContent (createGenericNotFoundError (bu_type object) (bu_id object))))
          # bulkUpdate_expectedBulkGetResults r time n rest
      else if bu_namespace object = Some ALL_NAMESPACES_STRING then
        Left (item_error (Some (bu_id object)) (bu_type object)
                (errorContent (createBadRequestError ''\"namespace\" cannot be \"*\"'')))
          # bulkUpdate_expectedBulkGetResults r time n rest
      else
        (let documentToSave = \<lparr>ud_type = bu_type object, ud_attributes = bu_attributes object,
                                 ud_updated_at = time, ud_references = bu_references object\<rparr>;
             requiresNamespacesCheck = isMultiNamespace r (bu_type object)
         in Right \<lparr>ue_type = bu_type object, ue_id = bu_id object,
                   ue_version = bu_version object, ue_documentToSave = documentToSave,
                   ue_objectNamespace = bu_namespace object,
                   ue_esRequestIndex = (if requiresNamespacesCheck then Some n else None)\<rparr>
              # bulkUpdate_expectedBulkGetResults r time
                  (if requiresNamespacesCheck then Suc n else n) rest))"

text \<open>The two local functions \<^verbatim>\<open>getNamespaceId\<close> and \<^verbatim>\<open>getNamespaceString\<close>.\<close>

definition getNamespaceId :: "string option \<Rightarrow> string option \<Rightarrow> string option" where
  "getNamespaceId namespace objectNamespace =
     (case objectNamespace of Some ns \<Rightarrow> namespaceStringToId ns | None \<Rightarrow> namespace)"

definition getNamespaceString :: "string option \<Rightarrow> string option \<Rightarrow> string" where
  "getNamespaceString namespace objectNamespace =
     (case objectNamespace of Some ns \<Rightarrow> ns | None \<Rightarrow> namespaceIdToString namespace)"

record bulk_update_result =
  ur_type :: string
  ur_id :: string
  ur_namespaces :: "string list option"
  ur_esRequestIndex :: nat
  ur_documentToSave :: update_doc

definition bulkUpdate_prepare ::
  "repository \<Rightarrow> string option \<Rightarrow> (nat \<times> raw_doc option list) option \<Rightarrow> bulk_update_expected
     \<Rightarrow> error + (bulk_error, string list option \<times> bulk_op) either" where
  "bulkUpdate_prepare r namespace bulkGetResponse expected =
     (let indexFound = (case bulkGetResponse of None \<Rightarrow> True | Some (statusCode, docs) \<Rightarrow> statusCode \<noteq> 404);
          actualResult = (case ue_esRequestIndex expected of
                            None \<Rightarrow> None
                          | Some n \<Rightarrow> (if indexFound then docs_at bulkGetResponse n else None));
          docFound = (indexFound \<and> actualResult \<noteq> None);
          op = (\<lambda>versionProperties.
                  OpUpdate (getIndexForType r (ue_type expected))
                    (generateRawId r (getNamespaceId namespace (ue_objectNamespace expected))
                       (ue_type expected) (ue_id expected))
                    versionProperties (ue_documentToSave expected))
      in if ue_esRequestIndex expected \<noteq> None then
           (if \<not> docFound
               \<or> \<not> rawDocExistsInNamespace r (the actualResult)
                     (getNamespaceId namespace (ue_objectNamespace expected)) then
              Inr (Left (item_error (Some (ue_id expected)) (ue_type expected)
                           (errorContent (createGenericNotFoundError (ue_type expected) (ue_id expected)))))
            else
              (case getExpectedVersionProperties r (ue_version expected) actualResult of
                 Inl e \<Rightarrow> Inl e
               | Inr versionProperties \<Rightarrow>
                   Inr (Right
                     (Some (case rs_namespaces (doc_source (the actualResult)) of
                              Some nss \<Rightarrow> nss
                            | None \<Rightarrow>
                                [namespaceIdToString (rs_namespace (doc_source (the actualResult)))]),
                      op versionProperties))))
         else
           (case getExpectedVersionProperties r (ue_version expected) None of
              Inl e \<Rightarrow> Inl e
            | Inr versionProperties \<Rightarrow>
                Inr (Right
                  ((if isSingleNamespace r (ue_type expected)
                      then Some [getNamespaceString namespace (ue_objectNamespace expected)]
                      else None),
                   op versionProperties))))"

fun bulkUpdate_expectedBulkUpdateResults ::
  "repository \<Rightarrow> string option \<Rightarrow> (nat \<times> raw_doc option list) option \<Rightarrow> nat
     \<Rightarrow> (bulk_error, bulk_update_expected) either list
     \<Rightarrow> error + ((bulk_error, bulk_update_result) either list \<times> bulk_op list)" where
  "bulkUpdate_expectedBulkUpdateResults r namespace resp n [] = Inr ([], [])"
| "bulkUpdate_expectedBulkUpdateResults r namespace resp n (Left e # rest) =
     (case bulkUpdate_expectedBulkUpdateResults r namespace resp n rest of
        Inl x \<Rightarrow> Inl x
      | Inr (es, ops) \<Rightarrow> Inr (Left e # es, ops))"
| "bulkUpdate_expectedBulkUpdateResults r namespace resp n (Right v # rest) =
     (case bulkUpdate_prepare r namespace resp v of
        Inl x \<Rightarrow> Inl x
      | Inr (Left e) \<Rightarrow>
          (case bulkUpdate_expectedBulkUpdateResults r namespace resp n rest of
             Inl x \<Rightarrow> Inl x
           | Inr (es, ops) \<Rightarrow> Inr (Left e # es, ops))
      | Inr (Right (namespaces, op)) \<Rightarrow>
          (case bulkUpdate_expectedBulkUpdateResults r namespace resp (Suc n) rest of
             Inl x \<Rightarrow> Inl x
           | Inr (es, ops) \<Rightarrow>
               Inr (Right \<lparr>ur_type = ue_type v, ur_id = ue_id v, ur_namespaces = namespaces,
                           ur_esRequestIndex = n,
                           ur_documentToSave = ue_documentToSave v\<rparr> # es, op # ops)))"

definition bulkUpdate_slot ::
  "repository \<Rightarrow> bulk_item list option \<Rightarrow> (bulk_error, bulk_update_result) either
     \<Rightarrow> error + (bulk_error + so_doc)" where
  "bulkUpdate_slot r bulkUpdateResponse expectedResult =
     (case expectedResult of
        Left e \<Rightarrow> Inr (Inl e)
      | Right v \<Rightarrow>
          (case items_at bulkUpdateResponse (ur_esRequestIndex v) of
             None \<Rightarrow> Inl (GeneralError ''TypeError: rawResponse is undefined'')
           | Some rawResponse \<Rightarrow>
               (case getBulkOperationError (ur_type v) (ur_id v) rawResponse of
                  Some error \<Rightarrow> Inr (Inl (item_error (Some (ur_id v)) (ur_type v) error))
                | None \<Rightarrow>
                    (case bi_get rawResponse of
                       None \<Rightarrow> Inl (GeneralError ''TypeError: get is undefined'')
                     | Some src \<Rightarrow>
                         Inr (Inr \<lparr>so_id = ur_id v, so_type = ur_type v, so_namespace = None,
                                   so_namespaces = ur_namespaces v,
                                   so_originId = (if truthy (rs_originId src)
                                                    then rs_originId src else None),
                                   so_attributes = ud_attributes (ur_documentToSave v),
                                   so_migrationVersion = JUndefined,
                                   so_updated_at = Some (ud_updated_at (ur_documentToSave v)),
                                   so_references = ud_references (ur_documentToSave v),
                                   so_version = Some (encodeVersion r (bi_seq_no rawResponse)
                                                        (bi_primary_term rawResponse))\<rparr>)))))"

definition bulkUpdate ::
  "repository \<Rightarrow> bulk_update_object list \<Rightarrow> string option \<Rightarrow> world
     \<Rightarrow> (error + (bulk_error + so_doc) list) \<times> world" where
  "bulkUpdate r objects options_namespace w =
     (let time = w_time w
      in case normalizeNamespace options_namespace of
           Inl e \<Rightarrow> (Inl e, w)
         | Inr namespace \<Rightarrow>
      (let expectedBulkGetResults = bulkUpdate_expectedBulkGetResults r time 0 objects;
           bulkGetDocs =
             map (\<lambda>v. (getIndexForType r (ue_type v),
                        generateRawId r (getNamespaceId namespace (ue_objectNamespace v))
                          (ue_type v) (ue_id v)))
               (filter (\<lambda>v. ue_esRequestIndex v \<noteq> None) (rights expectedBulkGetResults))
       in case bulk_mget bulkGetDocs w of
            (bulkGetResponse, w1) \<Rightarrow>
      (case bulkUpdate_expectedBulkUpdateResults r namespace bulkGetResponse 0
              expectedBulkGetResults of
         Inl e \<Rightarrow> (Inl e, w1)
       | Inr (expectedBulkUpdateResults, bulkUpdateParams) \<Rightarrow>
      (case bulk_write bulkUpdateParams w1 of
         (bulkUpdateResponse, w2) \<Rightarrow>
           (case map_result (bulkUpdate_slot r bulkUpdateResponse) expectedBulkUpdateResults of
              Inl e \<Rightarrow> (Inl e, w2)
            | Inr saved_objects \<Rightarrow> (Inr saved_objects, w2))))))"

section \<open>An example deployment\<close>

text \<open>
  A concrete registry, serializer, migrator and version codec, on which the theorems below
  are run: \<^verbatim>\<open>widget\<close> is a single-namespace type, \<^verbatim>\<open>shared\<close> a multi-namespace
  (shareable) one, \<^verbatim>\<open>config\<close> and the two internal types are namespace-agnostic. The raw id
  carries the namespace only for single-namespace types; the migrator accepts the documents
  whose attributes are an object; a version token writes the sequence number and the primary
  term in unary.
\<close>

definition demo_single :: "string \<Rightarrow> bool" where
  "demo_single t = (t = ''widget'')"

definition demo_multi :: "string \<Rightarrow> bool" where
  "demo_multi t = (t = ''shared'')"

definition demo_rawId :: "string option \<Rightarrow> string \<Rightarrow> string \<Rightarrow> string" where
  "demo_rawId ns t i =
     (if truthy ns \<and> demo_single t then the ns @ '':'' else []) @ t @ '':'' @ i"

definition demo_toRaw :: "so_doc \<Rightarrow> raw_doc" where
  "demo_toRaw d =
     \<lparr>doc_id = demo_rawId (so_namespace d) (so_type d) (so_id d),
      doc_source = \<lparr>rs_type = so_type d, rs_namespace = so_namespace d,
                    rs_namespaces = so_namespaces d, rs_originId = so_originId d,
                    rs_bags = [(so_type d, so_attributes d)],
                    rs_references = so_references d, rs_updated_at = so_updated_at d,
                    rs_migrationVersion = so_migrationVersion d\<rparr>,
      doc_seq_no = None, doc_primary_term = None\<rparr>"

definition demo_encode :: "nat option \<Rightarrow> nat option \<Rightarrow> string" where
  "demo_encode s t =
     replicate (case s of None \<Rightarrow> 0 | Some n \<Rightarrow> n) (CHR ''s'')
     @ replicate (case t of None \<Rightarrow> 0 | Some n \<Rightarrow> n) (CHR ''t'')"

definition demo_decode :: "string \<Rightarrow> error + nat \<times> nat" where
  "demo_decode v =
     (let rest = dropWhile (\<lambda>c. c = CHR ''s'') v
      in if rest \<noteq> [] \<and> list_all (\<lambda>c. c = CHR ''t'') rest
           then Inr (length (takeWhile (\<lambda>c. c = CHR ''s'') v), length rest)
           else Inl (BadRequest ''Invalid version''))"

definition demo_fromRaw :: "raw_doc \<Rightarrow> so_doc" where
  "demo_fromRaw raw =
     (let src = doc_source raw
      in \<lparr>so_id = drop (length (demo_rawId (rs_namespace src) (rs_type src) [])) (doc_id raw),
          so_type = rs_type src, so_namespace = rs_namespace src,
          so_namespaces = rs_namespaces src, so_originId = rs_originId src,
          so_attributes = source_bag src (rs_type src),
          so_migrationVersion = rs_migrationVersion src,
          so_updated_at = rs_updated_at src, so_references = rs_references src,
          so_version = (if doc_seq_no raw = None then None
                        else Some (demo_encode (doc_seq_no raw) (doc_primary_term raw)))\<rparr>)"

definition demo_migrate :: "so_doc \<Rightarrow> error + so_doc" where
  "demo_migrate d =
     (case so_attributes d of
        JObj _ \<Rightarrow> Inr d
      | _ \<Rightarrow> Inl (BadRequest ''attributes must be an object''))"

definition demo_exists :: "raw_doc \<Rightarrow> string option \<Rightarrow> bool" where
  "demo_exists raw ns =
     (if \<not> demo_multi (rs_type (doc_source raw)) then True
      else (case rs_namespaces (doc_source raw) of
              None \<Rightarrow> False
            | Some nss \<Rightarrow> namespaceIdToString ns \<in> set nss \<or> ALL_NAMESPACES_STRING \<in> set nss))"

definition demo_fromSource :: "string \<Rightarrow> string \<Rightarrow> raw_doc \<Rightarrow> so_doc" where
  "demo_fromSource t i d =
     (let src = doc_source d
      in \<lparr>so_id = i, so_type = t, so_namespace = None,
          so_namespaces =
            (if demo_single t \<or> demo_multi t
               then Some (case rs_namespaces src of
                            Some nss \<Rightarrow> nss
                          | None \<Rightarrow> [namespaceIdToString (rs_namespace src)])
               else None),
          so_originId = rs_originId src,
          so_attributes = source_bag src t,
          so_migrationVersion = rs_migrationVersion src,
          so_updated_at = rs_updated_at src,
          so_references = Some (case rs_references src of None \<Rightarrow> [] | Some rf \<Rightarrow> rf),
          so_version = Some (demo_encode (doc_seq_no d) (doc_primary_term d))\<rparr>)"

definition demo_repo :: repository where
  "demo_repo =
     \<lparr>r_index = ''.kibana'',
      r_allowedTypes = [''widget'', ''shared'', ''config''],
      isSingleNamespace = demo_single,
      isMultiNamespace = demo_multi,
      isNamespaceAgnostic = (\<lambda>t. \<not> demo_single t \<and> \<not> demo_multi t),
      isShareable = demo_multi,
      getIndex = (\<lambda>t. None),
      generateRawId = demo_rawId,
      generateRawLegacyUrlAliasId =
        (\<lambda>ns t i. ''legacy-url-alias:'' @ ns @ '':'' @ t @ '':'' @ i),
      savedObjectToRaw = demo_toRaw,
      rawToSavedObject = demo_fromRaw,
      migrateDocument = demo_migrate,
      enableV2 = False,
      kibanaVersion = ''7.14.0'',
      decodeRequestVersion = demo_decode,
      encodeVersion = demo_encode,
      rawDocExistsInNamespace = demo_exists,
      getSavedObjectFromSource = demo_fromSource,
      generateId = (\<lambda>n. ''uuid-'' @ replicate n (CHR ''1''))\<rparr>"

definition demo_source :: "string \<Rightarrow> string option \<Rightarrow> string list option \<Rightarrow> js \<Rightarrow> raw_source" where
  "demo_source t ns nss attrs =
     \<lparr>rs_type = t, rs_namespace = ns, rs_namespaces = nss, rs_originId = None,
      rs_bags = [(t, attrs)], rs_references = Some [], rs_updated_at = None,
      rs_migrationVersion = JUndefined\<rparr>"

text \<open>
  The example store: a widget \<^verbatim>\<open>w1\<close> in the default namespace, a shared object
  \<^verbatim>\<open>s1\<close> that lives in the namespaces \<^verbatim>\<open>a\<close> and \<^verbatim>\<open>b\<close>, a shared object
  \<^verbatim>\<open>s2\<close> that lives in \<^verbatim>\<open>a\<close> only, and two legacy aliases in namespace
  \<^verbatim>\<open>a\<close>, from the old id \<^verbatim>\<open>old\<close> of a shared object to \<^verbatim>\<open>s2\<close> and from the
  id \<^verbatim>\<open>s1\<close> to \<^verbatim>\<open>s2\<close>.
\<close>

definition demo_world :: world where
  "demo_world =
     \<lparr>w_docs =
        [((''.kibana'', ''widget:w1''),
           \<lparr>st_seq_no = 3, st_primary_term = 1,
            st_source = demo_source ''widget'' None None (JObj [(''n'', JNum 1)])\<rparr>),
         ((''.kibana'', ''shared:s1''),
           \<lparr>st_seq_no = 5, st_primary_term = 1,
            st_source = demo_source ''shared'' None (Some [''a'', ''b'']) (JObj [(''n'', JNum 2)])\<rparr>),
         ((''.kibana'', ''shared:s2''),
           \<lparr>st_seq_no = 6, st_primary_term = 1,
            st_source = demo_source ''shared'' None (Some [''a'']) (JObj [(''n'', JNum 3)])\<rparr>),
         ((''.kibana'', ''legacy-url-alias:a:shared:old''),
           \<lparr>st_seq_no = 7, st_primary_term = 1,
            st_source = demo_source ''legacy-url-alias'' None None
                          (JObj [(''targetId'', JStr ''s2'')])\<rparr>),
         ((''.kibana'', ''legacy-url-alias:a:shared:s1''),
           \<lparr>st_seq_no = 8, st_primary_term = 1,
            st_source = demo_source ''legacy-url-alias'' None None
                          (JObj [(''targetId'', JStr ''s2''), (''resolveCounter'', JNum 2)])\<rparr>)],
      w_seq = 9, w_term = 1, w_calls = [], w_uuid = 0, w_time = ''2021-06-01T00:00:00.000Z''\<rparr>"

section \<open>The claims' vocabulary\<close>

text \<open>
  What the specification calls a well-formed counter-field list: an array whose members are
  strings or records with a string \<^verbatim>\<open>fieldName\<close>; the field a member names; and the
  delta the specification gives it (0 under \<^verbatim>\<open>initialize\<close>, else 1 for a plain string or
  a record without \<^verbatim>\<open>incrementBy\<close>, else the record's \<^verbatim>\<open>incrementBy\<close>).
\<close>

definition spec_counter_field :: "js \<Rightarrow> bool" where
  "spec_counter_field f =
     (case f of
        JStr _ \<Rightarrow> True
      | JObj kvs \<Rightarrow> (case map_of kvs ''fieldName'' of Some (JStr _) \<Rightarrow> True | _ \<Rightarrow> False)
      | _ \<Rightarrow> False)"

definition spec_counter_fields :: "js \<Rightarrow> bool" where
  "spec_counter_fields cf =
     (case cf of JArr fs \<Rightarrow> list_all spec_counter_field fs | _ \<Rightarrow> False)"

definition spec_field_name :: "js \<Rightarrow> js" where
  "spec_field_name f = (case f of JStr s \<Rightarrow> JStr s | _ \<Rightarrow> js_prop f ''fieldName'')"

definition spec_delta :: "bool \<Rightarrow> js \<Rightarrow> js" where
  "spec_delta initialize f =
     (if initialize then JNum 0
      else (case f of
              JStr _ \<Rightarrow> JNum 1
            | _ \<Rightarrow> (if js_prop f ''incrementBy'' = JUndefined then JNum 1
                    else js_prop f ''incrementBy'')))"

definition demo_increment_options :: increment_options where
  "demo_increment_options =
     \<lparr>io_migrationVersion = JUndefined, io_initialize = False,
      io_upsertAttributes = None, io_namespace = None\<rparr>"

definition demo_find_deps :: find_deps where
  "demo_find_deps =
     \<lparr>validateConvertFilterToKueryNode = (\<lambda>ts f. Inr f),
      validateAndConvertAggregations = (\<lambda>ts a. Inr a),
      includedFields = (\<lambda>t fs. fs),
      getSearchDsl =
        (\<lambda>d. JObj (case dsl_searchAfter d of None \<Rightarrow> [] | Some sa \<Rightarrow> [(''search_after'', JArr sa)])),
      search_answer =
        (\<lambda>eo. (200, \<lparr>sr_total = 0, sr_hits = [], sr_aggregations = None, sr_pit_id = None\<rparr>))\<rparr>"

definition demo_find_options :: find_options where
  "demo_find_options =
     \<lparr>fo_search = None, fo_defaultSearchOperator = None, fo_searchFields = None,
      fo_rootSearchFields = None, fo_hasReference = JUndefined,
      fo_hasReferenceOperator = None, fo_page = None, fo_perPage = None, fo_pit = None,
      fo_searchAfter = None, fo_sortField = None, fo_sortOrder = None, fo_fields = None,
      fo_namespaces = None, fo_type = None, fo_typeToNamespacesMap = None, fo_filter = None,
      fo_preference = None, fo_aggs = None\<rparr>"

text \<open>Options and inputs of the example calls.\<close>

definition demo_create_options :: create_options where
  "demo_create_options =
     \<lparr>co_id = Some ''x1'', co_migrationVersion = JUndefined, co_overwrite = False,
      co_references = None, co_originId = None, co_initialNamespaces = None,
      co_version = None, co_namespace = None\<rparr>"

definition demo_update_options :: update_options where
  "demo_update_options =
     \<lparr>uo_version = None, uo_references = None, uo_upsert = None, uo_namespace = None\<rparr>"

definition demo_delete_options :: delete_options where
  "demo_delete_options = \<lparr>do_force = False, do_namespace = None\<rparr>"

definition demo_bulk_get :: "string \<Rightarrow> string \<Rightarrow> bulk_get_object" where
  "demo_bulk_get t i = \<lparr>bg_type = t, bg_id = i, bg_fields = None\<rparr>"

definition demo_bulk_update :: "string \<Rightarrow> string \<Rightarrow> js \<Rightarrow> bulk_update_object" where
  "demo_bulk_update t i attrs =
     \<lparr>bu_type = t, bu_id = i, bu_attributes = attrs, bu_references = None,
      bu_version = None, bu_namespace = None\<rparr>"

definition demo_bulk_create :: "string \<Rightarrow> string \<Rightarrow> js \<Rightarrow> bulk_create_object" where
  "demo_bulk_create t i attrs =
     \<lparr>bc_type = t, bc_id = Some i, bc_attributes = attrs, bc_references = None,
      bc_migrationVersion = JUndefined, bc_originId = None, bc_initialNamespaces = None,
      bc_version = None\<rparr>"

text \<open>
  The lookup of \<^verbatim>\<open>resolve\<close> without its bookkeeping: the same steps, returning beside the
  result the name of the outcome counter that \<^verbatim>\<open>resolve\<close> then bumps
  (\<^verbatim>\<open>outcomeStatString\<close>; none on the paths that leave before an outcome is reached).
  \<open>with_stats\<close> is the bookkeeping. That \<^verbatim>\<open>resolve\<close> is the one after the other is proved
  below.
\<close>

definition resolveExactMatch_outcome ::
  "repository \<Rightarrow> string \<Rightarrow> string \<Rightarrow> string option \<Rightarrow> world
     \<Rightarrow> (error + resolve_response) \<times> string option \<times> world" where
  "resolveExactMatch_outcome r t i options_namespace w =
     (case get r t i options_namespace w of
        (Inr object, w1) \<Rightarrow>
          (Inr \<lparr>saved_object = object, outcome = ExactMatch, aliasTargetId = None\<rparr>,
           Some STATS_EXACT_MATCH, w1)
      | (Inl err, w1) \<Rightarrow>
          (Inl err, (if isNotFoundError err then Some STATS_NOT_FOUND else None), w1))"

definition resolve_outcome ::
  "repository \<Rightarrow> string \<Rightarrow> string \<Rightarrow> string option \<Rightarrow> world
     \<Rightarrow> (error + resolve_response) \<times> string option \<times> world" where
  "resolve_outcome r t i options_namespace w =
     (if \<not> allowed r t then (Inl (createGenericNotFoundError t i), None, w)
      else
      (case normalizeNamespace options_namespace of
         Inl e \<Rightarrow> (Inl e, None, w)
       | Inr None \<Rightarrow> resolveExactMatch_outcome r t i options_namespace w
       | Inr (Some namespace) \<Rightarrow>
      (case es_update_script (getIndexForType r LEGACY_URL_ALIAS_TYPE)
              (generateRawLegacyUrlAliasId r namespace t i) [] []
              (run_resolve_script LEGACY_URL_ALIAS_TYPE (w_time w)) None True w of
         (Inl e, w1) \<Rightarrow> (Inl e, None, w1)
       | (Inr (statusCode, body), w1) \<Rightarrow>
      (if statusCode = 404
          \<or> (case body of None \<Rightarrow> False
              | Some b \<Rightarrow> (case wr_get b of None \<Rightarrow> False
                           | Some src \<Rightarrow>
                               js_prop (source_bag src LEGACY_URL_ALIAS_TYPE) ''disabled'' = JBool True))
       then resolveExactMatch_outcome r t i options_namespace w1
       else
      (case (case body of None \<Rightarrow> None | Some b \<Rightarrow> wr_get b) of
         None \<Rightarrow> (Inl (GeneralError ''TypeError: get is undefined''), None, w1)
       | Some src \<Rightarrow>
      (let targetId = js_string (js_prop (source_bag src LEGACY_URL_ALIAS_TYPE) ''targetId'');
           objectIndex = getIndexForType r t
       in case es_mget [(objectIndex, generateRawId r (Some namespace) t i),
                        (objectIndex, generateRawId r (Some namespace) t targetId)] w1 of
            ((mgetStatus, docs), w2) \<Rightarrow>
      (case docs of
         [exactMatchDoc, aliasMatchDoc] \<Rightarrow>
           (let foundExactMatch =
                  (case exactMatchDoc of None \<Rightarrow> False
                   | Some d \<Rightarrow> rawDocExistsInNamespace r d (Some namespace));
                foundAliasMatch =
                  (case aliasMatchDoc of None \<Rightarrow> False
                   | Some d \<Rightarrow> rawDocExistsInNamespace r d (Some namespace))
            in if foundExactMatch \<and> foundAliasMatch then
                 (Inr \<lparr>saved_object = getSavedObjectFromSource r t i (the exactMatchDoc),
                       outcome = ConflictOutcome, aliasTargetId = Some targetId\<rparr>,
                  Some STATS_CONFLICT, w2)
               else if foundExactMatch then
                 (Inr \<lparr>saved_object = getSavedObjectFromSource r t i (the exactMatchDoc),
                       outcome = ExactMatch, aliasTargetId = None\<rparr>,
                  Some STATS_EXACT_MATCH, w2)
               else if foundAliasMatch then
                 (Inr \<lparr>saved_object = getSavedObjectFromSource r t targetId (the aliasMatchDoc),
                       outcome = AliasMatch, aliasTargetId = Some targetId\<rparr>,
                  Some STATS_ALIAS_MATCH, w2)
               else (Inl (createGenericNotFoundError t i), Some STATS_NOT_FOUND, w2))
       | _ \<Rightarrow> (Inl (GeneralError ''TypeError: doc is undefined''), None, w2))))))))"

definition with_stats ::
  "repository \<Rightarrow> (error + resolve_response) \<times> string option \<times> world
     \<Rightarrow> (error + resolve_response) \<times> world" where
  "with_stats r x =
     (case x of
        (res, None, w) \<Rightarrow> (res, w)
      | (res, Some outcomeStatString, w) \<Rightarrow> (res, incrementResolveOutcomeStats r outcomeStatString w))"


text \<open>
  The words of the specification about \<^verbatim>\<open>resolve\<close>, on the store as it is before the
  call: whether an object exists in a namespace under an id; the target of the legacy alias
  of an id, when there is an alias and it is not disabled; and the result the specification
  prescribes. An alias record is well formed when its attribute bag is an object whose
  \<^verbatim>\<open>resolveCounter\<close> is missing, null or a number.
\<close>

definition exists_in_namespace ::
  "repository \<Rightarrow> world \<Rightarrow> string option \<Rightarrow> string \<Rightarrow> string \<Rightarrow> raw_doc option" where
  "exists_in_namespace r w ns t i =
     (case find_doc w (getIndexForType r t) (generateRawId r ns t i) of
        None \<Rightarrow> None
      | Some d \<Rightarrow>
          (if rawDocExistsInNamespace r (hit (generateRawId r ns t i) d) ns
             then Some (hit (generateRawId r ns t i) d) else None))"

definition legacy_alias ::
  "repository \<Rightarrow> world \<Rightarrow> string \<Rightarrow> string \<Rightarrow> string \<Rightarrow> raw_source option" where
  "legacy_alias r w n t i =
     map_option st_source
       (find_doc w (getIndexForType r LEGACY_URL_ALIAS_TYPE) (generateRawLegacyUrlAliasId r n t i))"

definition alias_target :: "raw_source option \<Rightarrow> string option" where
  "alias_target alias =
     (case alias of
        None \<Rightarrow> None
      | Some src \<Rightarrow>
          (if js_prop (source_bag src LEGACY_URL_ALIAS_TYPE) ''disabled'' = JBool True then None
           else Some (js_string (js_prop (source_bag src LEGACY_URL_ALIAS_TYPE) ''targetId''))))"

definition alias_well_formed :: "raw_source \<Rightarrow> bool" where
  "alias_well_formed src =
     (case source_bag src LEGACY_URL_ALIAS_TYPE of
        JObj kvs \<Rightarrow>
          (case js_prop (JObj kvs) ''resolveCounter'' of
             JUndefined \<Rightarrow> True | JNull \<Rightarrow> True | JNum _ \<Rightarrow> True | _ \<Rightarrow> False)
      | _ \<Rightarrow> False)"

definition spec_exact_or_not_found ::
  "repository \<Rightarrow> string \<Rightarrow> string \<Rightarrow> raw_doc option \<Rightarrow> error + resolve_response" where
  "spec_exact_or_not_found r t i exact =
     (case exact of
        Some d \<Rightarrow> Inr \<lparr>saved_object = getSavedObjectFromSource r t i d,
                        outcome = ExactMatch, aliasTargetId = None\<rparr>
      | None \<Rightarrow> Inl (NotFound (t @ ''/'' @ i)))"

definition spec_resolve ::
  "repository \<Rightarrow> world \<Rightarrow> string option \<Rightarrow> string \<Rightarrow> string \<Rightarrow> error + resolve_response" where
  "spec_resolve r w ns t i =
     (case (case ns of None \<Rightarrow> None | Some n \<Rightarrow> alias_target (legacy_alias r w n t i)) of
        None \<Rightarrow> spec_exact_or_not_found r t i (exists_in_namespace r w ns t i)
      | Some target \<Rightarrow>
          (case (exists_in_namespace r w ns t i, exists_in_namespace r w ns t target) of
             (Some d, Some a) \<Rightarrow>
               Inr \<lparr>saved_object = getSavedObjectFromSource r t i d,
                     outcome = ConflictOutcome, aliasTargetId = Some target\<rparr>
           | (Some d, None) \<Rightarrow>
               Inr \<lparr>saved_object = getSavedObjectFromSource r t i d,
                     outcome = ExactMatch, aliasTargetId = None\<rparr>
           | (None, Some a) \<Rightarrow>
               Inr \<lparr>saved_object = getSavedObjectFromSource r t target a,
                     outcome = AliasMatch, aliasTargetId = Some target\<rparr>
           | (None, None) \<Rightarrow> Inl (NotFound (t @ ''/'' @ i))))"





definition kept :: "('a \<Rightarrow> bool) \<Rightarrow> 'a list \<Rightarrow> 'b list \<Rightarrow> 'b list" where
  "kept P xs ys = map snd (filter (\<lambda>(x, y). P x) (zip xs ys))"

section \<open>The request log and the store under the store's operations\<close>

lemma calls_put_doc [simp]: "w_calls (put_doc idx i src w) = w_calls w"
  by (simp add: put_doc_def)

lemma calls_remove_doc [simp]: "w_calls (remove_doc idx i w) = w_calls w"
  by (simp add: remove_doc_def)

lemma calls_log_call [simp]: "w_calls (log_call c w) = w_calls w @ [c]"
  by (simp add: log_call_def)

lemma docs_log_call [simp]: "w_docs (log_call c w) = w_docs w"
  by (simp add: log_call_def)

lemma es_update_script_calls:
  "es_update_script idx i ns cs sc ups ig w = (res, w') \<Longrightarrow>
   w_calls w' = w_calls w @ [CallUpdateScript idx i ns cs]"
  by (auto simp: es_update_script_def Let_def split: option.splits sum.splits if_splits)

section \<open>Counter fields of incrementCounter\<close>

lemma counter_field_check:
  "(isString f \<or> (isObject f \<and> isString (js_prop f ''fieldName''))) = spec_counter_field f"
  by (cases f)
     (auto simp: isString_def isObject_def js_prop_def spec_counter_field_def
           split: option.splits js.splits)

lemma isArrayOfCounterFields_spec: "isArrayOfCounterFields cf = spec_counter_fields cf"
  by (cases cf)
     (simp_all add: isArrayOfCounterFields_def spec_counter_fields_def counter_field_check)

lemma normalizeCounterField_spec:
  "spec_counter_field f \<Longrightarrow>
   normalizeCounterField init f = Inr (spec_field_name f, spec_delta init f)"
  by (cases f)
     (auto simp: normalizeCounterField_def spec_counter_field_def spec_field_name_def
                 spec_delta_def isString_def Let_def)

lemma map_result_all:
  "(\<And>x. x \<in> set xs \<Longrightarrow> f x = Inr (g x)) \<Longrightarrow> map_result f xs = Inr (map g xs)"
  by (induction xs) auto

lemma normalizeCounterField_all:
  "list_all spec_counter_field fs \<Longrightarrow>
   map_result (normalizeCounterField init) fs
     = Inr (map (\<lambda>f. (spec_field_name f, spec_delta init f)) fs)"
  by (rule map_result_all) (simp add: list_all_iff normalizeCounterField_spec)

lemma incrementCounter_rejects:
  "\<not> spec_counter_fields cf \<Longrightarrow>
   \<exists>msg. incrementCounter r t i cf opts w = (Inl (GeneralError msg), w)"
  by (cases t) (simp_all add: incrementCounter_def isArrayOfCounterFields_spec)

lemma incrementCounterInternal_request:
  assumes "incrementCounterInternal r ty i fs opts w = (Inr so, w')"
      and "list_all spec_counter_field fs"
  shows "\<exists>idx rid. last (w_calls w') =
           CallUpdateScript idx rid (map spec_field_name fs)
             (map (spec_delta (io_initialize opts)) fs)"
  using assms
  apply (simp add: incrementCounterInternal_def normalizeCounterField_all Let_def
              split: sum.splits prod.splits if_splits option.splits)
  apply (auto dest!: es_update_script_calls simp: comp_def)
  done

lemma incrementCounter_request:
  assumes "incrementCounter r t i (JArr fs) opts w = (Inr so, w')"
  shows "\<exists>idx rid. last (w_calls w') =
           CallUpdateScript idx rid (map spec_field_name fs)
             (map (spec_delta (io_initialize opts)) fs)"
proof -
  from assms obtain ty where ty: "t = JStr ty"
    by (cases t) (simp_all add: incrementCounter_def)
  from assms ty have ok: "spec_counter_fields (JArr fs)"
    by (auto simp: incrementCounter_def isArrayOfCounterFields_spec split: if_splits)
  from assms ty ok have "incrementCounterInternal r ty i fs opts w = (Inr so, w')"
    by (auto simp: incrementCounter_def isArrayOfCounterFields_spec split: if_splits)
  with ok show ?thesis
    by (auto simp: spec_counter_fields_def dest: incrementCounterInternal_request)
qed

lemma demo_incrementCounter_returns:
  "\<exists>so w'. incrementCounter demo_repo (JStr ''widget'') ''c1''
      (JArr [JStr ''views'', JObj [(''fieldName'', JStr ''clicks'')],
             JObj [(''fieldName'', JStr ''edits''), (''incrementBy'', JNum 4)]])
      demo_increment_options demo_world = (Inr so, w')"
  by (simp add: demo_increment_options_def incrementCounter_def isArrayOfCounterFields_def
        isString_def isObject_def js_prop_def allowed_def demo_repo_def
        incrementCounterInternal_def normalizeCounterField_def normalizeNamespace_def
        demo_single_def demo_multi_def truthy_def Let_def demo_migrate_def
        counter_attributes_def es_update_script_def find_doc_def demo_world_def
        demo_toRaw_def demo_rawId_def getIndexForType_def log_call_def)

text \<open>
  C7. \<^verbatim>\<open>incrementCounter\<close>: a \<^verbatim>\<open>counterFields\<close> argument that is not an array of strings
  or of records with a string \<^verbatim>\<open>fieldName\<close> is rejected with an error, and the world is
  as it was, so no request reached the store. For a well-formed array every member is
  normalised to its field name and its delta: 1 for a plain string, 1 for a record whose
  \<^verbatim>\<open>incrementBy\<close> is not given, the record's own \<^verbatim>\<open>incrementBy\<close> otherwise, and 0
  for every member under \<^verbatim>\<open>initialize\<close>. When the call returns an object, the request it
  sent last is the scripted update that carries exactly these names and deltas.
\<close>

theorem incrementCounter_counter_fields:
  "(\<not> spec_counter_fields counterFields \<longrightarrow>
      (\<exists>msg. incrementCounter r t i counterFields options w = (Inl (GeneralError msg), w)))
   \<and> (spec_counter_fields (JArr fs) \<longrightarrow>
        map_result (normalizeCounterField (io_initialize options)) fs
          = Inr (map (\<lambda>f. (spec_field_name f, spec_delta (io_initialize options) f)) fs))
   \<and> (incrementCounter r t i (JArr fs) options w = (Inr so, w') \<longrightarrow>
        (\<exists>idx rid. last (w_calls w') =
           CallUpdateScript idx rid (map spec_field_name fs)
             (map (spec_delta (io_initialize options)) fs)))"
proof (intro conjI impI)
  assume "\<not> spec_counter_fields counterFields"
  then show "\<exists>msg. incrementCounter r t i counterFields options w = (Inl (GeneralError msg), w)"
    by (rule incrementCounter_rejects)
next
  assume "spec_counter_fields (JArr fs)"
  then show "map_result (normalizeCounterField (io_initialize options)) fs
          = Inr (map (\<lambda>f. (spec_field_name f, spec_delta (io_initialize options) f)) fs)"
    by (simp add: spec_counter_fields_def normalizeCounterField_all)
next
  assume "incrementCounter r t i (JArr fs) options w = (Inr so, w')"
  then show "\<exists>idx rid. last (w_calls w') =
           CallUpdateScript idx rid (map spec_field_name fs)
             (map (spec_delta (io_initialize options)) fs)"
    by (rule incrementCounter_request)
qed

theorem incrementCounter_counter_fields_witness:
  "(\<exists>msg. incrementCounter demo_repo (JStr ''widget'') ''c1'' (JStr ''views'')
            demo_increment_options demo_world = (Inl (GeneralError msg), demo_world))
   \<and> map_result (normalizeCounterField False)
        [JStr ''views'', JObj [(''fieldName'', JStr ''clicks'')],
         JObj [(''fieldName'', JStr ''edits''), (''incrementBy'', JNum 4)]]
       = Inr [(JStr ''views'', JNum 1), (JStr ''clicks'', JNum 1), (JStr ''edits'', JNum 4)]
   \<and> (\<exists>idx rid. last (w_calls (snd (incrementCounter demo_repo (JStr ''widget'') ''c1''
          (JArr [JStr ''views'', JObj [(''fieldName'', JStr ''clicks'')],
                 JObj [(''fieldName'', JStr ''edits''), (''incrementBy'', JNum 4)]])
          demo_increment_options demo_world)))
        = CallUpdateScript idx rid [JStr ''views'', JStr ''clicks'', JStr ''edits'']
            [JNum 1, JNum 1, JNum 4])"
proof -
  obtain so w' where run:
    "incrementCounter demo_repo (JStr ''widget'') ''c1''
      (JArr [JStr ''views'', JObj [(''fieldName'', JStr ''clicks'')],
             JObj [(''fieldName'', JStr ''edits''), (''incrementBy'', JNum 4)]])
      demo_increment_options demo_world = (Inr so, w')"
    using demo_incrementCounter_returns by blast
  have wf: "spec_counter_fields
      (JArr [JStr ''views'', JObj [(''fieldName'', JStr ''clicks'')],
             JObj [(''fieldName'', JStr ''edits''), (''incrementBy'', JNum 4)]])"
    by (simp add: spec_counter_fields_def spec_counter_field_def)
  have bad: "\<not> spec_counter_fields (JStr ''views'')"
    by (simp add: spec_counter_fields_def)
  have init: "io_initialize demo_increment_options = False"
    by (simp add: demo_increment_options_def)
  show ?thesis
    using incrementCounter_counter_fields
      [of "JStr ''views''" demo_repo "JStr ''widget''" "''c1''" demo_increment_options demo_world
          "[JStr ''views'', JObj [(''fieldName'', JStr ''clicks'')],
            JObj [(''fieldName'', JStr ''edits''), (''incrementBy'', JNum 4)]]" so w']
      run wf bad init
    by (simp add: spec_field_name_def spec_delta_def js_prop_def)
qed

section \<open>Find: argument checks and pagination\<close>

lemma find_preconditions_reject:
  assumes "(\<not> type_truthy (fo_type options) \<and> fo_typeToNamespacesMap options = None)
     \<or> (type_truthy (fo_type options) \<and> fo_typeToNamespacesMap options \<noteq> None)
     \<or> (fo_namespaces options \<noteq> None \<and> fo_namespaces options \<noteq> Some []
          \<and> fo_typeToNamespacesMap options \<noteq> None)
     \<or> (fo_namespaces options = Some [] \<and> fo_typeToNamespacesMap options = None)
     \<or> (truthy (fo_preference options) \<and> fo_pit options \<noteq> None)"
  shows "\<exists>msg. find_preconditions options = Some (BadRequest msg)"
  using assms by (auto simp: find_preconditions_def Let_def createBadRequestError_def)

text \<open>
  C5. \<^verbatim>\<open>find\<close> fails with a \<^verbatim>\<open>BadRequest\<close> error, and leaves the world as it was (no
  query was sent to the store), whenever its options have neither a type nor a
  \<^verbatim>\<open>typeToNamespacesMap\<close>, or both, or a non-empty \<^verbatim>\<open>namespaces\<close> list together with
  a \<^verbatim>\<open>typeToNamespacesMap\<close>, or an empty \<^verbatim>\<open>namespaces\<close> array without a
  \<^verbatim>\<open>typeToNamespacesMap\<close>, or a \<^verbatim>\<open>preference\<close> together with a point-in-time token.
  As in the source, a type or a preference is given when it is not the empty string.
\<close>

theorem find_rejects_bad_options:
  assumes "(\<not> type_truthy (fo_type options) \<and> fo_typeToNamespacesMap options = None)
     \<or> (type_truthy (fo_type options) \<and> fo_typeToNamespacesMap options \<noteq> None)
     \<or> (fo_namespaces options \<noteq> None \<and> fo_namespaces options \<noteq> Some []
          \<and> fo_typeToNamespacesMap options \<noteq> None)
     \<or> (fo_namespaces options = Some [] \<and> fo_typeToNamespacesMap options = None)
     \<or> (truthy (fo_preference options) \<and> fo_pit options \<noteq> None)"
  shows "\<exists>msg. find r fd options w = (Inl (BadRequest msg), w)"
proof -
  from find_preconditions_reject [OF assms]
  obtain msg where "find_preconditions options = Some (BadRequest msg)" ..
  then show ?thesis by (simp add: find_def Let_def)
qed

theorem find_rejects_bad_options_witness:
  "(\<exists>msg. find demo_repo demo_find_deps demo_find_options demo_world
            = (Inl (BadRequest msg), demo_world))
   \<and> (\<exists>msg. find demo_repo demo_find_deps
              (demo_find_options\<lparr>fo_type := Some (TypeString ''widget''),
                                 fo_typeToNamespacesMap := Some [(''widget'', Some [''a''])]\<rparr>)
              demo_world = (Inl (BadRequest msg), demo_world))
   \<and> (\<exists>msg. find demo_repo demo_find_deps
              (demo_find_options\<lparr>fo_namespaces := Some [''a''],
                                 fo_typeToNamespacesMap := Some [(''widget'', Some [''a''])]\<rparr>)
              demo_world = (Inl (BadRequest msg), demo_world))
   \<and> (\<exists>msg. find demo_repo demo_find_deps
              (demo_find_options\<lparr>fo_type := Some (TypeString ''widget''),
                                 fo_namespaces := Some []\<rparr>)
              demo_world = (Inl (BadRequest msg), demo_world))
   \<and> (\<exists>msg. find demo_repo demo_find_deps
              (demo_find_options\<lparr>fo_type := Some (TypeString ''widget''),
                                 fo_preference := Some ''node-1'',
                                 fo_pit := Some \<lparr>pit_id = ''abc123'', pit_keepAlive = None\<rparr>\<rparr>)
              demo_world = (Inl (BadRequest msg), demo_world))"
proof (intro conjI)
  show "\<exists>msg. find demo_repo demo_find_deps demo_find_options demo_world
            = (Inl (BadRequest msg), demo_world)"
    by (rule find_rejects_bad_options) (simp add: demo_find_options_def type_truthy_def)
  show "\<exists>msg. find demo_repo demo_find_deps
              (demo_find_options\<lparr>fo_type := Some (TypeString ''widget''),
                                 fo_typeToNamespacesMap := Some [(''widget'', Some [''a''])]\<rparr>)
              demo_world = (Inl (BadRequest msg), demo_world)"
    by (rule find_rejects_bad_options) (simp add: demo_find_options_def type_truthy_def)
  show "\<exists>msg. find demo_repo demo_find_deps
              (demo_find_options\<lparr>fo_namespaces := Some [''a''],
                                 fo_typeToNamespacesMap := Some [(''widget'', Some [''a''])]\<rparr>)
              demo_world = (Inl (BadRequest msg), demo_world)"
    by (rule find_rejects_bad_options) (simp add: demo_find_options_def type_truthy_def)
  show "\<exists>msg. find demo_repo demo_find_deps
              (demo_find_options\<lparr>fo_type := Some (TypeString ''widget''),
                                 fo_namespaces := Some []\<rparr>)
              demo_world = (Inl (BadRequest msg), demo_world)"
    by (rule find_rejects_bad_options) (simp add: demo_find_options_def type_truthy_def)
  show "\<exists>msg. find demo_repo demo_find_deps
              (demo_find_options\<lparr>fo_type := Some (TypeString ''widget''),
                                 fo_preference := Some ''node-1'',
                                 fo_pit := Some \<lparr>pit_id = ''abc123'', pit_keepAlive = None\<rparr>\<rparr>)
              demo_world = (Inl (BadRequest msg), demo_world)"
    by (rule find_rejects_bad_options)
       (simp add: demo_find_options_def type_truthy_def truthy_def)
qed

lemma find_request:
  assumes "find r fd options w = (res, w')"
  shows "w' = w
         \<or> (\<exists>ts k a. w' = log_call (CallSearch (find_esOptions r fd options ts k a)) w)"
proof (cases "find_preconditions options")
  case (Some e)
  with assms show ?thesis by (simp add: find_def Let_def)
next
  case None
  show ?thesis
  proof (cases "filter (allowed r) (find_types options) = []")
    case True
    with None assms show ?thesis by (simp add: find_def Let_def)
  next
    case False
    show ?thesis
    proof (cases "find_kueryNode fd (filter (allowed r) (find_types options)) (fo_filter options)")
      case (Inl e)
      with None False assms show ?thesis by (simp add: find_def Let_def)
    next
      case (Inr k)
      show ?thesis
      proof (cases "find_aggsObject fd (filter (allowed r) (find_types options)) (fo_aggs options)")
        case (Inl e)
        with None False Inr assms show ?thesis by (simp add: find_def Let_def)
      next
        case a: (Inr a)
        with None False Inr assms show ?thesis
          by (auto simp: find_def Let_def es_search_def split: prod.splits if_splits)
      qed
    qed
  qed
qed

text \<open>
  What every search request of \<^verbatim>\<open>find\<close> carries: the parameter \<^verbatim>\<open>from\<close> beside the
  body is dropped when a \<^verbatim>\<open>searchAfter\<close> cursor is given, the \<^verbatim>\<open>from\<close> inside the body
  is the offset \<^verbatim>\<open>perPage * (page - 1)\<close> in either case.
\<close>

lemma find_esOptions_offsets:
  "eo_from (find_esOptions r fd options ts k a)
     = (if fo_searchAfter options \<noteq> None then None
        else Some ((case fo_perPage options of None \<Rightarrow> 20 | Some p \<Rightarrow> p)
                   * ((case fo_page options of None \<Rightarrow> 1 | Some p \<Rightarrow> p) - 1)))
   \<and> sb_from (eo_body (find_esOptions r fd options ts k a))
     = (case fo_perPage options of None \<Rightarrow> 20 | Some p \<Rightarrow> p)
       * ((case fo_page options of None \<Rightarrow> 1 | Some p \<Rightarrow> p) - 1)"
  by (simp add: find_esOptions_def Let_def FIND_DEFAULT_PAGE_def FIND_DEFAULT_PER_PAGE_def
           split: option.splits)

text \<open>
  C4. With a \<^verbatim>\<open>searchAfter\<close> cursor the offset is not kept out of the request:
  \<^verbatim>\<open>find\<close> for the third page of twenty widgets after a cursor sends one search request,
  whose parameter \<^verbatim>\<open>from\<close> is dropped, as the comment in the source says, and whose body
  still carries \<^verbatim>\<open>from: 40\<close>.
\<close>

theorem find_searchAfter_body_from:
  "\<exists>eo. w_calls (snd (find demo_repo demo_find_deps
            (demo_find_options\<lparr>fo_type := Some (TypeString ''widget''),
                               fo_page := Some 3, fo_perPage := Some 20,
                               fo_searchAfter := Some [JNum 7]\<rparr>) demo_world))
          = [CallSearch eo]
        \<and> eo_from eo = None \<and> sb_from (eo_body eo) = 40"
  by (simp add: find_def Let_def es_search_def find_esOptions_def find_preconditions_def
        demo_find_options_def type_truthy_def allowed_def demo_repo_def demo_world_def
        demo_find_deps_def truthy_def log_call_def find_types_def find_kueryNode_def
        find_aggsObject_def FIND_DEFAULT_PAGE_def FIND_DEFAULT_PER_PAGE_def)


section \<open>Bulk operations: the passes keep positions\<close>


lemma normalizeNamespace_wildcard:
  "normalizeNamespace (Some ALL_NAMESPACES_STRING)
     = Inl (BadRequest ''\"options.namespace\" cannot be \"*\"'')"
  by (simp add: normalizeNamespace_def createBadRequestError_def)

lemma map_result_Inr:
  "map_result f xs = Inr ys \<Longrightarrow>
   length ys = length xs \<and> (\<forall>j<length xs. f (xs ! j) = Inr (ys ! j))"
proof (induction xs arbitrary: ys)
  case Nil then show ?case by simp
next
  case (Cons x xs)
  then obtain y ys' where y: "f x = Inr y" and r: "map_result f xs = Inr ys'" and ys: "ys = y # ys'"
    by (auto split: sum.splits)
  from Cons.IH [OF r] show ?case using y ys by (auto simp: nth_Cons split: nat.splits)
qed

lemma bulkUpdate_first_pass_length [simp]:
  "length (bulkUpdate_expectedBulkGetResults r time n objs) = length objs"
  by (induction objs arbitrary: n) (auto simp: Let_def)


lemma bulkUpdate_second_pass:
  "bulkUpdate_expectedBulkUpdateResults r ns resp n es = Inr (es', ops) \<Longrightarrow>
   length es' = length es \<and> (\<forall>j<length es. \<forall>e. es ! j = Left e \<longrightarrow> es' ! j = Left e)"
proof (induction r ns resp n es arbitrary: es' ops rule: bulkUpdate_expectedBulkUpdateResults.induct)
  case (1 r namespace resp n)
  then show ?case by simp
next
  case (2 r namespace resp n e rest)
  then show ?case by (auto split: sum.splits prod.splits simp: nth_Cons split: nat.splits)
next
  case (3 r namespace resp n v rest)
  then show ?case by (auto split: sum.splits prod.splits either.splits simp: nth_Cons split: nat.splits)
qed







section \<open>The error kind for a type that is not allowed\<close>








section \<open>The wildcard namespace\<close>

lemma bulkUpdate_first_pass_wildcard:
  "j < length objs \<Longrightarrow> allowed r (bu_type (objs ! j)) \<Longrightarrow>
   bu_namespace (objs ! j) = Some ALL_NAMESPACES_STRING \<Longrightarrow>
   bulkUpdate_expectedBulkGetResults r time n objs ! j
     = Left (item_error (Some (bu_id (objs ! j))) (bu_type (objs ! j))
               (BadRequest ''\"namespace\" cannot be \"*\"''))"
proof (induction objs arbitrary: n j)
  case Nil then show ?case by simp
next
  case (Cons a objs)
  then show ?case by (cases j) (auto simp: Let_def errorContent_def createBadRequestError_def)
qed

lemma bulkUpdate_wildcard_slot:
  assumes "bulkUpdate r objs ons w = (Inr slots, w')"
      and "j < length objs" and "allowed r (bu_type (objs ! j))"
      and "bu_namespace (objs ! j) = Some ALL_NAMESPACES_STRING"
  shows "slots ! j = Inl (item_error (Some (bu_id (objs ! j))) (bu_type (objs ! j))
               (BadRequest ''\"namespace\" cannot be \"*\"''))"
proof -
  from assms(1) obtain ns where ns: "normalizeNamespace ons = Inr ns"
    by (auto simp: bulkUpdate_def Let_def split: sum.splits)
  define E where "E = bulkUpdate_expectedBulkGetResults r (w_time w) 0 objs"
  from assms(1) ns obtain resp es' ops items where
     p2: "bulkUpdate_expectedBulkUpdateResults r ns resp 0 E = Inr (es', ops)"
     and fin: "map_result (bulkUpdate_slot r items) es' = Inr slots"
    by (auto simp: bulkUpdate_def Let_def E_def split: sum.splits prod.splits)
  have Ej: "E ! j = Left (item_error (Some (bu_id (objs ! j))) (bu_type (objs ! j))
               (BadRequest ''\"namespace\" cannot be \"*\"''))"
    unfolding E_def using assms(2,3,4) by (rule bulkUpdate_first_pass_wildcard)
  have lenE: "length E = length objs" by (simp add: E_def)
  from bulkUpdate_second_pass [OF p2] lenE Ej assms(2)
  have "length es' = length objs" and "es' ! j = Left (item_error (Some (bu_id (objs ! j))) (bu_type (objs ! j))
               (BadRequest ''\"namespace\" cannot be \"*\"''))"
    by auto
  with map_result_Inr [OF fin] assms(2) show ?thesis
    by (auto simp: bulkUpdate_slot_def)
qed

lemma create_wildcard:
  assumes "co_namespace copts = Some ALL_NAMESPACES_STRING"
  shows "\<exists>msg. fst (create r t attrs copts w) = Inl (BadRequest msg)
         \<and> w_calls (snd (create r t attrs copts w)) = w_calls w
         \<and> w_docs (snd (create r t attrs copts w)) = w_docs w"
  using assms
  by (simp add: create_def Let_def normalizeNamespace_wildcard split: option.splits)

text \<open>
  C9, as amended. Passing the wildcard \<^verbatim>\<open>'*'\<close> as \<^verbatim>\<open>options.namespace\<close> fails with
  \<^verbatim>\<open>BadRequest\<close> before any request reaches the store: in \<^verbatim>\<open>create\<close>,
  \<^verbatim>\<open>bulkCreate\<close>, \<^verbatim>\<open>bulkGet\<close> and \<^verbatim>\<open>bulkUpdate\<close> always; in \<^verbatim>\<open>checkConflicts\<close> when
  the list of objects is not empty; in \<^verbatim>\<open>get\<close>, \<^verbatim>\<open>resolve\<close>, \<^verbatim>\<open>delete\<close> and
  \<^verbatim>\<open>update\<close> when the type is allowed; in \<^verbatim>\<open>incrementCounter\<close> when the type is
  allowed and the counter fields are well formed. In \<^verbatim>\<open>bulkUpdate\<close> an item of an allowed
  type whose own namespace is \<^verbatim>\<open>'*'\<close> gets a \<^verbatim>\<open>BadRequest\<close> error slot. The string
  \<^verbatim>\<open>default\<close> is normalised to the undefined namespace.
\<close>

theorem wildcard_namespace_rejected:
  "(co_namespace copts = Some ALL_NAMESPACES_STRING \<longrightarrow>
      (\<exists>msg. fst (create r t attrs copts w) = Inl (BadRequest msg)
         \<and> w_calls (snd (create r t attrs copts w)) = w_calls w
         \<and> w_docs (snd (create r t attrs copts w)) = w_docs w)
      \<and> (\<exists>msg. bulkCreate r cobjs copts w = (Inl (BadRequest msg), w)))
   \<and> (\<exists>msg. bulkGet r gobjs (Some ALL_NAMESPACES_STRING) w = (Inl (BadRequest msg), w))
   \<and> (\<exists>msg. bulkUpdate r uobjs (Some ALL_NAMESPACES_STRING) w = (Inl (BadRequest msg), w))
   \<and> (gobjs \<noteq> [] \<longrightarrow>
        (\<exists>msg. checkConflicts r gobjs (Some ALL_NAMESPACES_STRING) w = (Inl (BadRequest msg), w)))
   \<and> (allowed r t \<longrightarrow>
        (\<exists>msg. get r t i (Some ALL_NAMESPACES_STRING) w = (Inl (BadRequest msg), w))
        \<and> (\<exists>msg. resolve r t i (Some ALL_NAMESPACES_STRING) w = (Inl (BadRequest msg), w))
        \<and> (do_namespace dopts = Some ALL_NAMESPACES_STRING \<longrightarrow>
             (\<exists>msg. delete r t i dopts w = (Inl (BadRequest msg), w)))
        \<and> (uo_namespace uopts = Some ALL_NAMESPACES_STRING \<longrightarrow>
             (\<exists>msg. update r t i attrs uopts w = (Inl (BadRequest msg), w)))
        \<and> (io_namespace iopts = Some ALL_NAMESPACES_STRING \<and> spec_counter_fields cf \<longrightarrow>
             (\<exists>msg. incrementCounter r (JStr t) i cf iopts w = (Inl (BadRequest msg), w))))
   \<and> (bulkUpdate r uobjs ons w = (Inr uslots, w1) \<and> j < length uobjs
        \<and> allowed r (bu_type (uobjs ! j)) \<and> bu_namespace (uobjs ! j) = Some ALL_NAMESPACES_STRING
        \<longrightarrow> (\<exists>msg. uslots ! j = Inl (item_error (Some (bu_id (uobjs ! j))) (bu_type (uobjs ! j))
                                     (BadRequest msg))))
   \<and> normalizeNamespace (Some ''default'') = Inr None"
proof (intro conjI impI)
  assume c: "co_namespace copts = Some ALL_NAMESPACES_STRING"
  then show "\<exists>msg. fst (create r t attrs copts w) = Inl (BadRequest msg)
         \<and> w_calls (snd (create r t attrs copts w)) = w_calls w
         \<and> w_docs (snd (create r t attrs copts w)) = w_docs w"
    by (rule create_wildcard)
  from c show "\<exists>msg. bulkCreate r cobjs copts w = (Inl (BadRequest msg), w)"
    by (simp add: bulkCreate_def Let_def normalizeNamespace_wildcard)
next
  show "\<exists>msg. bulkGet r gobjs (Some ALL_NAMESPACES_STRING) w = (Inl (BadRequest msg), w)"
    by (simp add: bulkGet_def normalizeNamespace_wildcard)
  show "\<exists>msg. bulkUpdate r uobjs (Some ALL_NAMESPACES_STRING) w = (Inl (BadRequest msg), w)"
    by (simp add: bulkUpdate_def Let_def normalizeNamespace_wildcard)
next
  assume "gobjs \<noteq> []"
  then show "\<exists>msg. checkConflicts r gobjs (Some ALL_NAMESPACES_STRING) w = (Inl (BadRequest msg), w)"
    by (simp add: checkConflicts_def normalizeNamespace_wildcard)
next
  assume a: "allowed r t"
  then show "\<exists>msg. get r t i (Some ALL_NAMESPACES_STRING) w = (Inl (BadRequest msg), w)"
    by (simp add: get_def normalizeNamespace_wildcard)
  from a show "\<exists>msg. resolve r t i (Some ALL_NAMESPACES_STRING) w = (Inl (BadRequest msg), w)"
    by (simp add: resolve_def normalizeNamespace_wildcard)
  {
    assume "do_namespace dopts = Some ALL_NAMESPACES_STRING"
    with a show "\<exists>msg. delete r t i dopts w = (Inl (BadRequest msg), w)"
      by (simp add: delete_def Let_def normalizeNamespace_wildcard)
  }
  {
    assume "uo_namespace uopts = Some ALL_NAMESPACES_STRING"
    with a show "\<exists>msg. update r t i attrs uopts w = (Inl (BadRequest msg), w)"
      by (simp add: update_def Let_def normalizeNamespace_wildcard)
  }
  {
    assume h: "io_namespace iopts = Some ALL_NAMESPACES_STRING \<and> spec_counter_fields cf"
    then obtain fs where fs: "cf = JArr fs" "list_all spec_counter_field fs"
      by (cases cf) (auto simp: spec_counter_fields_def)
    with a h show "\<exists>msg. incrementCounter r (JStr t) i cf iopts w = (Inl (BadRequest msg), w)"
      by (simp add: incrementCounter_def isArrayOfCounterFields_spec incrementCounterInternal_def
            Let_def normalizeCounterField_all normalizeNamespace_wildcard)
  }
next
  assume "bulkUpdate r uobjs ons w = (Inr uslots, w1) \<and> j < length uobjs
        \<and> allowed r (bu_type (uobjs ! j)) \<and> bu_namespace (uobjs ! j) = Some ALL_NAMESPACES_STRING"
  then show "\<exists>msg. uslots ! j = Inl (item_error (Some (bu_id (uobjs ! j))) (bu_type (uobjs ! j))
                                     (BadRequest msg))"
    using bulkUpdate_wildcard_slot [of r uobjs ons w uslots w1 j] by auto
next
  show "normalizeNamespace (Some ''default'') = Inr None"
    by (simp add: normalizeNamespace_def namespaceStringToId_def ALL_NAMESPACES_STRING_def
          DEFAULT_NAMESPACE_STRING_def)
qed

lemma demo_bulkUpdate_wildcard_returns:
  "\<exists>slots w'. bulkUpdate demo_repo
      [(demo_bulk_update ''widget'' ''w1'' (JObj []))\<lparr>bu_namespace := Some ''*''\<rparr>] None demo_world
     = (Inr slots, w')"
  by (simp add: demo_bulk_update_def bulkUpdate_def Let_def normalizeNamespace_def allowed_def
        demo_repo_def bulk_mget_def bulk_write_def bulkUpdate_slot_def ALL_NAMESPACES_STRING_def)

theorem wildcard_namespace_rejected_witness:
  "(\<exists>msg. fst (create demo_repo ''widget'' (JObj [])
               (demo_create_options\<lparr>co_namespace := Some ''*''\<rparr>) demo_world) = Inl (BadRequest msg))
   \<and> (\<exists>msg. bulkCreate demo_repo [demo_bulk_create ''widget'' ''w2'' (JObj [])]
               (demo_create_options\<lparr>co_namespace := Some ''*''\<rparr>) demo_world
             = (Inl (BadRequest msg), demo_world))
   \<and> (\<exists>msg. checkConflicts demo_repo [demo_bulk_get ''widget'' ''w1''] (Some ''*'') demo_world
             = (Inl (BadRequest msg), demo_world))
   \<and> (\<exists>msg. get demo_repo ''widget'' ''w1'' (Some ''*'') demo_world
             = (Inl (BadRequest msg), demo_world))
   \<and> (\<exists>msg. delete demo_repo ''widget'' ''w1'' (demo_delete_options\<lparr>do_namespace := Some ''*''\<rparr>)
               demo_world = (Inl (BadRequest msg), demo_world))
   \<and> (\<exists>msg. update demo_repo ''widget'' ''w1'' (JObj [])
               (demo_update_options\<lparr>uo_namespace := Some ''*''\<rparr>) demo_world
             = (Inl (BadRequest msg), demo_world))
   \<and> (\<exists>msg. incrementCounter demo_repo (JStr ''widget'') ''w1'' (JArr [JStr ''views''])
               (demo_increment_options\<lparr>io_namespace := Some ''*''\<rparr>) demo_world
             = (Inl (BadRequest msg), demo_world))
   \<and> (\<exists>slots w' msg. bulkUpdate demo_repo
          [(demo_bulk_update ''widget'' ''w1'' (JObj []))\<lparr>bu_namespace := Some ''*''\<rparr>] None
          demo_world = (Inr slots, w')
        \<and> slots ! 0 = Inl (item_error (Some ''w1'') ''widget'' (BadRequest msg)))"
proof -
  have a: "allowed demo_repo ''widget''"
    by (simp add: allowed_def demo_repo_def)
  obtain us w1 where us: "bulkUpdate demo_repo
      [(demo_bulk_update ''widget'' ''w1'' (JObj []))\<lparr>bu_namespace := Some ''*''\<rparr>] None demo_world
     = (Inr us, w1)"
    using demo_bulkUpdate_wildcard_returns by blast
  have o: "co_namespace (demo_create_options\<lparr>co_namespace := Some ''*''\<rparr>) = Some ALL_NAMESPACES_STRING"
    "do_namespace (demo_delete_options\<lparr>do_namespace := Some ''*''\<rparr>) = Some ALL_NAMESPACES_STRING"
    "uo_namespace (demo_update_options\<lparr>uo_namespace := Some ''*''\<rparr>) = Some ALL_NAMESPACES_STRING"
    "io_namespace (demo_increment_options\<lparr>io_namespace := Some ''*''\<rparr>) = Some ALL_NAMESPACES_STRING"
    "[demo_bulk_get ''widget'' ''w1''] \<noteq> []"
    "spec_counter_fields (JArr [JStr ''views''])"
    by (simp_all add: ALL_NAMESPACES_STRING_def spec_counter_fields_def spec_counter_field_def)
  have u0: "allowed demo_repo (bu_type
        ([(demo_bulk_update ''widget'' ''w1'' (JObj []))\<lparr>bu_namespace := Some ''*''\<rparr>] ! 0))"
    "bu_namespace ([(demo_bulk_update ''widget'' ''w1'' (JObj []))\<lparr>bu_namespace := Some ''*''\<rparr>] ! 0)
       = Some ALL_NAMESPACES_STRING"
    "bu_id ([(demo_bulk_update ''widget'' ''w1'' (JObj []))\<lparr>bu_namespace := Some ''*''\<rparr>] ! 0) = ''w1''"
    "bu_type ([(demo_bulk_update ''widget'' ''w1'' (JObj []))\<lparr>bu_namespace := Some ''*''\<rparr>] ! 0)
       = ''widget''"
    by (simp_all add: demo_bulk_update_def allowed_def demo_repo_def ALL_NAMESPACES_STRING_def)
  have star: "Some ALL_NAMESPACES_STRING = Some ''*''"
    by (simp add: ALL_NAMESPACES_STRING_def)
  show ?thesis
    using wildcard_namespace_rejected
      [of "demo_create_options\<lparr>co_namespace := Some ''*''\<rparr>" demo_repo "''widget''" "JObj []"
          demo_world "[demo_bulk_create ''widget'' ''w2'' (JObj [])]"
          "[demo_bulk_get ''widget'' ''w1'']"
          "[(demo_bulk_update ''widget'' ''w1'' (JObj []))\<lparr>bu_namespace := Some ''*''\<rparr>]"
          "''w1''" "demo_delete_options\<lparr>do_namespace := Some ''*''\<rparr>"
          "demo_update_options\<lparr>uo_namespace := Some ''*''\<rparr>"
          "demo_increment_options\<lparr>io_namespace := Some ''*''\<rparr>" "JArr [JStr ''views'']"
          None us w1 0]
      a us o u0
    unfolding star
    by auto
qed


text \<open>
  C9, as stated, fails: \<^verbatim>\<open>checkConflicts\<close> with an empty list returns its empty result
  before it looks at the namespace, and \<^verbatim>\<open>get\<close> rejects a type that is not allowed, with
  \<^verbatim>\<open>NotFound\<close>, before it looks at the namespace.
\<close>

theorem wildcard_namespace_not_always_rejected:
  "checkConflicts demo_repo [] (Some ''*'') demo_world = (Inr [], demo_world)
   \<and> get demo_repo ''secret'' ''x1'' (Some ''*'') demo_world
       = (Inl (NotFound ''secret/x1''), demo_world)"
  by (simp add: checkConflicts_def get_def allowed_def demo_repo_def createGenericNotFoundError_def)


section \<open>Resolve: the lookup and its bookkeeping\<close>

lemma resolveExactMatch_decomposed:
  "resolveExactMatch r t i ons w = with_stats r (resolveExactMatch_outcome r t i ons w)"
  by (simp add: resolveExactMatch_def resolveExactMatch_outcome_def with_stats_def
           split: prod.splits sum.splits)

lemma resolve_decomposed:
  "resolve r t i ons w = with_stats r (resolve_outcome r t i ons w)"
proof (cases "allowed r t")
  case False
  then show ?thesis by (simp add: resolve_def resolve_outcome_def with_stats_def)
next
  case a: True
  show ?thesis
  proof (cases "normalizeNamespace ons")
    case (Inl e)
    with a show ?thesis by (simp add: resolve_def resolve_outcome_def with_stats_def)
  next
    case (Inr ns)
    show ?thesis
    proof (cases ns)
      case None
      with a Inr show ?thesis
        by (simp add: resolve_def resolve_outcome_def resolveExactMatch_decomposed)
    next
      case (Some n)
      obtain ar w1 where al: "es_update_script (getIndexForType r LEGACY_URL_ALIAS_TYPE)
              (generateRawLegacyUrlAliasId r n t i) [] []
              (run_resolve_script LEGACY_URL_ALIAS_TYPE (w_time w)) None True w = (ar, w1)"
        by (cases "es_update_script (getIndexForType r LEGACY_URL_ALIAS_TYPE)
              (generateRawLegacyUrlAliasId r n t i) [] []
              (run_resolve_script LEGACY_URL_ALIAS_TYPE (w_time w)) None True w")
      show ?thesis
      proof (cases ar)
        case (Inl e)
        with a Inr Some al show ?thesis
          by (simp add: resolve_def resolve_outcome_def with_stats_def Let_def)
      next
        case r2: (Inr sb)
        obtain statusCode body where sb: "sb = (statusCode, body)" by (cases sb)
        show ?thesis
          using a Inr Some al r2 sb
          by (simp add: resolve_def resolve_outcome_def with_stats_def Let_def
                resolveExactMatch_decomposed [unfolded with_stats_def]
              split: prod.splits option.splits list.splits)
      qed
    qed
  qed
qed







lemma fst_with_stats: "fst (with_stats r x) = fst x"
  by (cases x) (auto simp: with_stats_def split: option.splits)








section \<open>Resolve: the classification of outcomes\<close>

lemma find_doc_log_call [simp]: "find_doc (log_call c w) idx i = find_doc w idx i"
  by (simp add: find_doc_def)

lemma find_doc_put_doc:
  "find_doc (put_doc idx i src w) idx' i'
     = (if (idx', i') = (idx, i)
          then Some \<lparr>st_seq_no = w_seq w, st_primary_term = w_term w, st_source = src\<rparr>
          else find_doc w idx' i')"
  by (simp add: find_doc_def put_doc_def update_conv')

lemma get_exists:
  assumes "allowed r t" and "normalizeNamespace ons = Inr ns"
  shows "fst (get r t i ons w)
           = (case exists_in_namespace r w ns t i of
                Some d \<Rightarrow> Inr (getSavedObjectFromSource r t i d)
              | None \<Rightarrow> Inl (NotFound (t @ ''/'' @ i)))"
  using assms
  by (auto simp: get_def es_get_def exists_in_namespace_def
        createGenericNotFoundError_def split: option.splits)

lemma exists_in_namespace_cong:
  "find_doc w' (getIndexForType r t) (generateRawId r ns t i)
     = find_doc w (getIndexForType r t) (generateRawId r ns t i) \<Longrightarrow>
   exists_in_namespace r w' ns t i = exists_in_namespace r w ns t i"
  by (simp add: exists_in_namespace_def)

lemma resolveExactMatch_outcome_fst:
  "fst (resolveExactMatch_outcome r t i ons w)
     = (case fst (get r t i ons w) of
          Inr object \<Rightarrow> Inr \<lparr>saved_object = object, outcome = ExactMatch, aliasTargetId = None\<rparr>
        | Inl e \<Rightarrow> Inl e)"
  by (simp add: resolveExactMatch_outcome_def split: prod.splits sum.splits)

lemma exact_path:
  assumes "allowed r t" and "normalizeNamespace ons = Inr ns"
  shows "fst (resolveExactMatch_outcome r t i ons w)
           = spec_exact_or_not_found r t i (exists_in_namespace r w ns t i)"
  by (simp add: resolveExactMatch_outcome_fst get_exists [OF assms] spec_exact_or_not_found_def
           split: option.splits)

lemma script_well_formed:
  assumes "alias_well_formed src"
  shows "\<exists>src'. run_resolve_script LEGACY_URL_ALIAS_TYPE tm src = Inr src'
      \<and> js_prop (source_bag src' LEGACY_URL_ALIAS_TYPE) ''disabled''
          = js_prop (source_bag src LEGACY_URL_ALIAS_TYPE) ''disabled''
      \<and> js_prop (source_bag src' LEGACY_URL_ALIAS_TYPE) ''targetId''
          = js_prop (source_bag src LEGACY_URL_ALIAS_TYPE) ''targetId''"
  using assms
  by (auto simp: alias_well_formed_def run_resolve_script_def source_bag_def js_prop_def
        update_conv' split: js.splits option.splits)


lemma resolve_outcome_default:
  assumes "allowed r t" and "normalizeNamespace ons = Inr None"
  shows "fst (resolve_outcome r t i ons w) = spec_resolve r w None t i"
  using assms exact_path [OF assms, of i w]
  by (simp add: resolve_outcome_def spec_resolve_def)

lemma resolve_outcome_no_alias:
  assumes a: "allowed r t" and n: "normalizeNamespace ons = Inr (Some n)"
      and no: "legacy_alias r w n t i = None"
  shows "fst (resolve_outcome r t i ons w) = spec_resolve r w (Some n) t i"
proof -
  from no have f: "find_doc w (getIndexForType r LEGACY_URL_ALIAS_TYPE)
                     (generateRawLegacyUrlAliasId r n t i) = None"
    by (simp add: legacy_alias_def)
  have e: "exists_in_namespace r
             (log_call (CallUpdateScript (getIndexForType r LEGACY_URL_ALIAS_TYPE)
                          (generateRawLegacyUrlAliasId r n t i) [] []) w) (Some n) t i
           = exists_in_namespace r w (Some n) t i"
    by (rule exists_in_namespace_cong) simp
  show ?thesis
    using a n f no e
      exact_path [OF a n, of i "log_call (CallUpdateScript (getIndexForType r LEGACY_URL_ALIAS_TYPE)
                          (generateRawLegacyUrlAliasId r n t i) [] []) w"]
    by (simp add: resolve_outcome_def es_update_script_def Let_def spec_resolve_def
          alias_target_def)
qed

lemma resolve_outcome_alias:
  assumes a: "allowed r t" and n: "normalizeNamespace ons = Inr (Some n)"
      and al: "legacy_alias r w n t i = Some src"
      and wf: "alias_well_formed src"
      and sep: "\<forall>j. (getIndexForType r t, generateRawId r (Some n) t j)
                  \<noteq> (getIndexForType r LEGACY_URL_ALIAS_TYPE, generateRawLegacyUrlAliasId r n t i)"
  shows "fst (resolve_outcome r t i ons w) = spec_resolve r w (Some n) t i"
proof -
  define aidx where "aidx = getIndexForType r LEGACY_URL_ALIAS_TYPE"
  define aid where "aid = generateRawLegacyUrlAliasId r n t i"
  from al obtain d where f: "find_doc w aidx aid = Some d" and src: "src = st_source d"
    by (auto simp: legacy_alias_def aidx_def aid_def)
  from script_well_formed [OF wf, of "w_time w"] obtain src' where
    run: "run_resolve_script LEGACY_URL_ALIAS_TYPE (w_time w) src = Inr src'"
    and dis: "js_prop (source_bag src' LEGACY_URL_ALIAS_TYPE) ''disabled''
          = js_prop (source_bag src LEGACY_URL_ALIAS_TYPE) ''disabled''"
    and tgt: "js_prop (source_bag src' LEGACY_URL_ALIAS_TYPE) ''targetId''
          = js_prop (source_bag src LEGACY_URL_ALIAS_TYPE) ''targetId''"
    by blast
  define w2 where "w2 = put_doc aidx aid src' (log_call (CallUpdateScript aidx aid [] []) w)"
  have upd: "es_update_script aidx aid [] [] (run_resolve_script LEGACY_URL_ALIAS_TYPE (w_time w))
               None True w = (Inr (200, Some (written w (Some src'))), w2)"
    using f run src by (simp add: es_update_script_def Let_def w2_def)
  have same: "\<And>j. find_doc w2 (getIndexForType r t) (generateRawId r (Some n) t j)
                = find_doc w (getIndexForType r t) (generateRawId r (Some n) t j)"
    using sep by (auto simp: w2_def find_doc_put_doc aidx_def aid_def)
  have ex: "\<And>j. exists_in_namespace r w2 (Some n) t j = exists_in_namespace r w (Some n) t j"
    by (rule exists_in_namespace_cong) (rule same)
  show ?thesis
  proof (cases "js_prop (source_bag src LEGACY_URL_ALIAS_TYPE) ''disabled'' = JBool True")
    case True
    with a n upd dis ex [of i] exact_path [OF a n, of i w2] al show ?thesis
      by (simp add: resolve_outcome_def Let_def spec_resolve_def alias_target_def written_def
            aidx_def [symmetric] aid_def [symmetric])
  next
    case False
    define target where "target = js_string (js_prop (source_bag src LEGACY_URL_ALIAS_TYPE) ''targetId'')"
    have mg: "es_mget [(getIndexForType r t, generateRawId r (Some n) t i),
                       (getIndexForType r t, generateRawId r (Some n) t target)] w2
         = ((200, [map_option (hit (generateRawId r (Some n) t i))
                     (find_doc w (getIndexForType r t) (generateRawId r (Some n) t i)),
                   map_option (hit (generateRawId r (Some n) t target))
                     (find_doc w (getIndexForType r t) (generateRawId r (Some n) t target))]),
            log_call (CallMget [(getIndexForType r t, generateRawId r (Some n) t i),
                       (getIndexForType r t, generateRawId r (Some n) t target)]) w2)"
      by (simp add: es_mget_def same)
    from a n upd dis tgt False al mg show ?thesis
      by (auto simp: resolve_outcome_def Let_def spec_resolve_def alias_target_def written_def
            aidx_def [symmetric] aid_def [symmetric] target_def [symmetric]
            exists_in_namespace_def createGenericNotFoundError_def
          split: option.splits)
  qed
qed

text \<open>
  C3. \<^verbatim>\<open>resolve\<close> on an allowed type returns what the specification prescribes for the
  store as it is before the call: without a usable alias (default namespace, no alias record,
  or a disabled one) the object under the given id, outcome \<^verbatim>\<open>exactMatch\<close>, or
  \<^verbatim>\<open>NotFound\<close>; with an alias that is not disabled, \<^verbatim>\<open>conflict\<close> when the object under
  the given id and the object under the alias target both exist in the namespace (the former
  is returned, with the target id), \<^verbatim>\<open>exactMatch\<close> when only the former exists,
  \<^verbatim>\<open>aliasMatch\<close> when only the latter exists (it is returned under the target id), and
  \<^verbatim>\<open>NotFound\<close> when neither exists. The alias record, when there is one, is well formed,
  and its raw id is not the raw id of an object of the type.
\<close>

theorem resolve_classification:
  assumes "allowed r t" and "normalizeNamespace ons = Inr ns"
      and "\<forall>n src. ns = Some n \<and> legacy_alias r w n t i = Some src \<longrightarrow> alias_well_formed src"
      and "\<forall>n j. ns = Some n \<longrightarrow>
             (getIndexForType r t, generateRawId r (Some n) t j)
               \<noteq> (getIndexForType r LEGACY_URL_ALIAS_TYPE, generateRawLegacyUrlAliasId r n t i)"
  shows "fst (resolve r t i ons w) = spec_resolve r w ns t i"
proof -
  have "fst (resolve_outcome r t i ons w) = spec_resolve r w ns t i"
  proof (cases ns)
    case None
    with assms(1,2) show ?thesis by (simp add: resolve_outcome_default)
  next
    case (Some n)
    show ?thesis
    proof (cases "legacy_alias r w n t i")
      case None
      with assms(1,2) Some show ?thesis by (simp add: resolve_outcome_no_alias)
    next
      case al: (Some src)
      from assms(3) Some al have wf: "alias_well_formed src" by blast
      from assms(4) Some have sep: "\<forall>j. (getIndexForType r t, generateRawId r (Some n) t j)
               \<noteq> (getIndexForType r LEGACY_URL_ALIAS_TYPE, generateRawLegacyUrlAliasId r n t i)"
        by blast
      from assms(1,2) Some al wf sep show ?thesis
        by (simp add: resolve_outcome_alias)
    qed
  qed
  then show ?thesis by (simp add: resolve_decomposed fst_with_stats)
qed

lemma demo_alias_side_conditions:
  "allowed demo_repo ''shared''"
  "normalizeNamespace (Some ''a'') = Inr (Some ''a'')"
  "\<forall>n src. Some ''a'' = Some n \<and> legacy_alias demo_repo demo_world n ''shared'' i = Some src
      \<longrightarrow> alias_well_formed src"
  "\<forall>n j. Some ''a'' = Some n \<longrightarrow>
      (getIndexForType demo_repo ''shared'', generateRawId demo_repo (Some n) ''shared'' j)
        \<noteq> (getIndexForType demo_repo LEGACY_URL_ALIAS_TYPE,
            generateRawLegacyUrlAliasId demo_repo n ''shared'' i)"
  by (auto simp: allowed_def demo_repo_def normalizeNamespace_def ALL_NAMESPACES_STRING_def
        namespaceStringToId_def DEFAULT_NAMESPACE_STRING_def legacy_alias_def find_doc_def
        demo_world_def getIndexForType_def truthy_def LEGACY_URL_ALIAS_TYPE_def
        alias_well_formed_def demo_source_def source_bag_def js_prop_def demo_rawId_def
        demo_single_def split: if_splits)

lemma demo_spec_resolve:
  "\<exists>a. spec_resolve demo_repo demo_world (Some ''a'') ''shared'' ''old''
         = Inr \<lparr>saved_object = a, outcome = AliasMatch, aliasTargetId = Some ''s2''\<rparr>
       \<and> so_id a = ''s2''"
  "\<exists>d. spec_resolve demo_repo demo_world (Some ''a'') ''shared'' ''s1''
         = Inr \<lparr>saved_object = d, outcome = ConflictOutcome, aliasTargetId = Some ''s2''\<rparr>
       \<and> so_id d = ''s1''"
  "\<exists>d. spec_resolve demo_repo demo_world (Some ''a'') ''shared'' ''s2''
         = Inr \<lparr>saved_object = d, outcome = ExactMatch, aliasTargetId = None\<rparr>
       \<and> so_id d = ''s2''"
  "spec_resolve demo_repo demo_world (Some ''a'') ''shared'' ''nope'' = Inl (NotFound ''shared/nope'')"
  by (simp_all add: spec_resolve_def legacy_alias_def alias_target_def exists_in_namespace_def
        spec_exact_or_not_found_def find_doc_def demo_world_def demo_repo_def getIndexForType_def
        truthy_def LEGACY_URL_ALIAS_TYPE_def demo_source_def source_bag_def js_prop_def
        js_string_def demo_rawId_def demo_single_def demo_exists_def demo_multi_def hit_def
        namespaceIdToString_def demo_fromSource_def Let_def)

theorem resolve_classification_witness:
  "(\<exists>a. fst (resolve demo_repo ''shared'' ''old'' (Some ''a'') demo_world)
          = Inr \<lparr>saved_object = a, outcome = AliasMatch, aliasTargetId = Some ''s2''\<rparr>
        \<and> so_id a = ''s2'')
   \<and> (\<exists>d. fst (resolve demo_repo ''shared'' ''s1'' (Some ''a'') demo_world)
          = Inr \<lparr>saved_object = d, outcome = ConflictOutcome, aliasTargetId = Some ''s2''\<rparr>
        \<and> so_id d = ''s1'')
   \<and> (\<exists>d. fst (resolve demo_repo ''shared'' ''s2'' (Some ''a'') demo_world)
          = Inr \<lparr>saved_object = d, outcome = ExactMatch, aliasTargetId = None\<rparr>
        \<and> so_id d = ''s2'')
   \<and> fst (resolve demo_repo ''shared'' ''nope'' (Some ''a'') demo_world)
       = Inl (NotFound ''shared/nope'')"
  using resolve_classification [OF demo_alias_side_conditions(1,2)
            demo_alias_side_conditions(3) [of "''old''"] demo_alias_side_conditions(4) [of "''old''"]]
        resolve_classification [OF demo_alias_side_conditions(1,2)
            demo_alias_side_conditions(3) [of "''s1''"] demo_alias_side_conditions(4) [of "''s1''"]]
        resolve_classification [OF demo_alias_side_conditions(1,2)
            demo_alias_side_conditions(3) [of "''s2''"] demo_alias_side_conditions(4) [of "''s2''"]]
        resolve_classification [OF demo_alias_side_conditions(1,2)
            demo_alias_side_conditions(3) [of "''nope''"] demo_alias_side_conditions(4) [of "''nope''"]]
        demo_spec_resolve
  by simp

section \<open>Multi-namespace types: the preflight read\<close>











lemma apply_update_doc_namespaces [simp]:
  "rs_namespaces (apply_update_doc ud src) = rs_namespaces src"
  by (simp add: apply_update_doc_def)


lemma time_log_call [simp]: "w_time (log_call c w) = w_time w"
  by (simp add: log_call_def)









section \<open>Bulk operations: one slot per item\<close>




lemma kept_Nil [simp]: "kept P [] ys = []" "kept P xs [] = []"
  by (simp_all add: kept_def)

lemma kept_Cons [simp]:
  "kept P (x # xs) (y # ys) = (if P x then y # kept P xs ys else kept P xs ys)"
  by (simp add: kept_def)


lemma rights_filter [simp]: "rights (filter isRight es) = rights es"
  by (induction es rule: rights.induct) (simp_all add: isRight_def)



































end
